theory Spec2Isabelle
  imports Main "HOL-Library.Word"
begin

unbundle bit_operations_syntax

section \<open>The chat-completion call of the OpenAI client\<close>

text \<open>
  The development embeds \<^verbatim>\<open>src/chat.go\<close>: the three structures it declares and the
  one method \<^verbatim>\<open>ChatCompletion\<close> of \<^verbatim>\<open>Engine\<close>. The method is a straight pipeline of five
  stages (validate, marshalJson, newReq, doReq, unmarshal), each of which may return an
  error. The stages themselves are not part of \<^verbatim>\<open>chat.go\<close>; they are parameters of the
  model, so every theorem about \<open>ChatCompletion\<close> holds for any validator, codec and
  transport.
\<close>

subsection \<open>Data (chat.go, lines 8 to 55)\<close>

text \<open>
  Go's \<^verbatim>\<open>int\<close> is modelled as \<open>int\<close>: its width depends on the platform and the
  method does no arithmetic on it, only a comparison with zero and an assignment.
  A \<^verbatim>\<open>float32\<close> is its IEEE 754 bit pattern; the zero value is the pattern \<open>0\<close>.
  A slice is an \<open>option\<close> of a list: \<open>None\<close> is the nil slice (the zero value),
  \<open>Some []\<close> an allocated slice of length zero.
\<close>

type_synonym float32 = "32 word"

record ChatMessage =
  Content :: string
  Role :: string

record ChatCompletionOptions =
  Model :: string
  Messages :: "ChatMessage list option"
  Temperature :: float32
  TopP :: float32
  N :: int
  Stop :: "string list option"
  MaxTokens :: int
  PresencePenalty :: float32
  FrequencyPenalty :: float32

record ChoicesItem =
  Message :: ChatMessage
  Index :: int
  FinishReason :: string

record UsageStruct =
  PromptTokens :: int
  CompletionTokens :: int
  TotalTokens :: int

record ChatCompletionResponse =
  Id :: string
  Object :: string
  Created :: int
  Choices :: "ChoicesItem list option"
  Usage :: UsageStruct

text \<open>The value of \<^verbatim>\<open>var result ChatCompletionResponse\<close> (line 80): every field zero.\<close>

definition zeroResponse :: ChatCompletionResponse where
  "zeroResponse =
     \<lparr>Id = [], Object = [], Created = 0, Choices = None,
      Usage = \<lparr>PromptTokens = 0, CompletionTokens = 0, TotalTokens = 0\<rparr>\<rparr>"

subsection \<open>Errors, collaborators and the record of their invocations\<close>

text \<open>
  \<open>ChatCompletion\<close> treats an error as an opaque value: it tests it against nil and
  returns it. The constructors name the four kinds of the error taxonomy, so that a
  validator or a transport can be told to produce one; an \<open>error option\<close> is Go's
  \<^verbatim>\<open>error\<close> interface value, \<open>None\<close> being nil.
\<close>

datatype error =
    ValidationError "string list"
  | SerializationError string
  | TransportError string
  | DeserializationError string

text \<open>
  The package-level names \<^verbatim>\<open>chat.go\<close> uses without declaring them: the constant
  \<^verbatim>\<open>defaultMaxTokens\<close> and the helpers \<^verbatim>\<open>marshalJson\<close> and \<^verbatim>\<open>unmarshal\<close>. A Go function
  returning \<^verbatim>\<open>(x, err)\<close> is a function into a pair. \<^verbatim>\<open>unmarshal(resp, &result)\<close> writes
  through its second argument: the model passes the structure in and gets it back.
\<close>

record ('body, 'resp) Package =
  defaultMaxTokens :: int
  marshalJson :: "ChatCompletionOptions \<Rightarrow> 'body \<times> error option"
  unmarshal :: "'resp \<Rightarrow> ChatCompletionResponse \<Rightarrow> error option \<times> ChatCompletionResponse"

text \<open>
  The members of \<^verbatim>\<open>Engine\<close> the method reads: the base URL, the validator
  (\<^verbatim>\<open>e.validate.StructCtx\<close>), and the two transport methods \<^verbatim>\<open>e.newReq\<close> and \<^verbatim>\<open>e.doReq\<close>.
\<close>

record ('ctx, 'body, 'req, 'resp) Engine =
  apiBaseURL :: string
  validate :: "'ctx \<Rightarrow> ChatCompletionOptions \<Rightarrow> error option"
  newReq :: "'ctx \<Rightarrow> string \<Rightarrow> string \<Rightarrow> string \<Rightarrow> 'body \<Rightarrow> 'req \<times> error option"
  doReq :: "'req \<Rightarrow> 'resp \<times> error option"

text \<open>One entry per invocation of a collaborator, with the arguments it received.\<close>

datatype ('ctx, 'body, 'req, 'resp) call =
    CallValidate 'ctx ChatCompletionOptions
  | CallMarshalJson ChatCompletionOptions
  | CallNewReq 'ctx string string string 'body
  | CallDoReq 'req
  | CallUnmarshal 'resp

text \<open>
  What one call leaves behind: the two results (a nil pointer is \<open>None\<close>), the structure
  behind the caller's \<^verbatim>\<open>opts\<close> pointer as it is after the call, and the collaborators
  invoked, in order.
\<close>

record ('ctx, 'body, 'req, 'resp) outcome =
  ret_response :: "ChatCompletionResponse option"
  ret_err :: "error option"
  opts_after :: ChatCompletionOptions
  calls :: "('ctx, 'body, 'req, 'resp) call list"

subsection \<open>ChatCompletion (chat.go, lines 60 to 85)\<close>

text \<open>
  \<^verbatim>\<open>opts\<close> is taken to be a non-nil pointer, and the validator and the encoder only read
  the structure behind it. \<^verbatim>\<open>http.MethodPost\<close> is the string \<^verbatim>\<open>POST\<close>.
\<close>

definition ChatCompletion ::
  "('body, 'resp) Package \<Rightarrow> ('ctx, 'body, 'req, 'resp) Engine \<Rightarrow> 'ctx \<Rightarrow>
   ChatCompletionOptions \<Rightarrow> ('ctx, 'body, 'req, 'resp) outcome" where
  "ChatCompletion p e ctx opts =
     (case validate e ctx opts of
        Some err \<Rightarrow>
          \<lparr>ret_response = None, ret_err = Some err, opts_after = opts,
           calls = [CallValidate ctx opts]\<rparr>
      | None \<Rightarrow>
          (let uri = apiBaseURL e @ ''/chat/completions'';
               opts1 = (if MaxTokens opts = 0
                        then opts\<lparr>MaxTokens := defaultMaxTokens p\<rparr> else opts);
               t1 = [CallValidate ctx opts, CallMarshalJson opts1]
           in case marshalJson p opts1 of
                (r, Some err) \<Rightarrow>
                  \<lparr>ret_response = None, ret_err = Some err, opts_after = opts1, calls = t1\<rparr>
              | (r, None) \<Rightarrow>
                  (let t2 = t1 @ [CallNewReq ctx ''POST'' uri ''json'' r]
                   in case newReq e ctx ''POST'' uri ''json'' r of
                        (req, Some err) \<Rightarrow>
                          \<lparr>ret_response = None, ret_err = Some err, opts_after = opts1,
                           calls = t2\<rparr>
                      | (req, None) \<Rightarrow>
                          (let t3 = t2 @ [CallDoReq req]
                           in case doReq e req of
                                (resp, Some err) \<Rightarrow>
                                  \<lparr>ret_response = None, ret_err = Some err,
                                   opts_after = opts1, calls = t3\<rparr>
                              | (resp, None) \<Rightarrow>
                                  (let t4 = t3 @ [CallUnmarshal resp]
                                   in case unmarshal p resp zeroResponse of
                                        (Some err, result) \<Rightarrow>
                                          \<lparr>ret_response = None, ret_err = Some err,
                                           opts_after = opts1, calls = t4\<rparr>
                                      | (None, result) \<Rightarrow>
                                          \<lparr>ret_response = Some result, ret_err = None,
                                           opts_after = opts1, calls = t4\<rparr>)))))"

subsection \<open>Terms of the statements\<close>

text \<open>The URI of line 64 and the structure behind \<^verbatim>\<open>opts\<close> after lines 65 to 67.\<close>

abbreviation chatURI :: "('ctx, 'body, 'req, 'resp) Engine \<Rightarrow> string" where
  "chatURI e \<equiv> apiBaseURL e @ ''/chat/completions''"

abbreviation defaulted :: "('body, 'resp) Package \<Rightarrow> ChatCompletionOptions \<Rightarrow> ChatCompletionOptions" where
  "defaulted p opts \<equiv>
     (if MaxTokens opts = 0 then opts\<lparr>MaxTokens := defaultMaxTokens p\<rparr> else opts)"

text \<open>The bodies handed to \<^verbatim>\<open>newReq\<close>, and the number of times \<^verbatim>\<open>doReq\<close> ran.\<close>

fun newReqBody :: "('ctx, 'body, 'req, 'resp) call \<Rightarrow> 'body option" where
  "newReqBody (CallNewReq ctx method uri enc b) = Some b"
| "newReqBody c = None"

definition sentBodies :: "('ctx, 'body, 'req, 'resp) call list \<Rightarrow> 'body list" where
  "sentBodies cs = List.map_filter newReqBody cs"

fun isDoReq :: "('ctx, 'body, 'req, 'resp) call \<Rightarrow> bool" where
  "isDoReq (CallDoReq req) = True"
| "isDoReq c = False"

definition doReqCount :: "('ctx, 'body, 'req, 'resp) call list \<Rightarrow> nat" where
  "doReqCount cs = length (filter isDoReq cs)"

text \<open>
  What the tags \<^verbatim>\<open>binding:"required"\<close> of lines 10 and 12 ask of a validator: options
  whose \<^verbatim>\<open>Model\<close> is empty or whose \<^verbatim>\<open>Messages\<close> is nil are rejected with a validation
  error.
\<close>

definition enforcesRequired :: "('ctx \<Rightarrow> ChatCompletionOptions \<Rightarrow> error option) \<Rightarrow> bool" where
  "enforcesRequired v \<longleftrightarrow>
     (\<forall>ctx opts. Model opts = [] \<or> Messages opts = None \<longrightarrow>
        (\<exists>fields. v ctx opts = Some (ValidationError fields)))"

subsection \<open>The validator\<close>

text \<open>
  Modelled from the spec: the validator behind \<^verbatim>\<open>e.validate.StructCtx\<close>, which \<^verbatim>\<open>chat.go\<close>
  calls and does not define. The spec describes it as a declarative required-field
  contract that fails with a validation error carrying the offending fields, and says of
  \<^verbatim>\<open>Messages\<close> that nothing is enforced beyond presence. Presence of a string is being
  non-empty, presence of a slice is being non-nil.
\<close>

definition missingRequired :: "ChatCompletionOptions \<Rightarrow> string list" where
  "missingRequired opts =
     (if Model opts = [] then [''Model''] else []) @
     (if Messages opts = None then [''Messages''] else [])"

definition StructCtx :: "'ctx \<Rightarrow> ChatCompletionOptions \<Rightarrow> error option" where
  "StructCtx ctx opts =
     (if missingRequired opts = [] then None
      else Some (ValidationError (missingRequired opts)))"

subsection \<open>The JSON encoder\<close>

text \<open>
  A JSON document as a tree; the members of an object keep their order.
\<close>

datatype json =
    JNull
  | JBool bool
  | JInt int
  | JFloat float32
  | JString string
  | JArray "json list"
  | JObject "(string \<times> json) list"

definition messageJson :: "ChatMessage \<Rightarrow> json" where
  "messageJson m = JObject [(''content'', JString (Content m)), (''role'', JString (Role m))]"

text \<open>
  Modelled from the spec: the helper \<^verbatim>\<open>marshalJson\<close>, which \<^verbatim>\<open>chat.go\<close> calls and does
  not define. The spec describes it as the JSON codec's marshal, whose output is the
  options structure with each optional field omitted when at its zero value, and which
  fails on an unsupported value. The keys and the \<^verbatim>\<open>omitempty\<close> marks are the \<^verbatim>\<open>json\<close> tags
  of lines 10 to 33; \<^verbatim>\<open>omitempty\<close> drops a slice of length zero, nil or not. The
  unsupported values of these field types are the floats that are not finite (exponent
  bits all set).
\<close>

definition optionsFields :: "ChatCompletionOptions \<Rightarrow> (string \<times> json) list" where
  "optionsFields opts =
     [(''model'', JString (Model opts)),
      (''messages'', case Messages opts of
                       None \<Rightarrow> JNull
                     | Some ms \<Rightarrow> JArray (map messageJson ms))] @
     (if Temperature opts = 0 then [] else [(''temperature'', JFloat (Temperature opts))]) @
     (if TopP opts = 0 then [] else [(''top_p'', JFloat (TopP opts))]) @
     (if N opts = 0 then [] else [(''n'', JInt (N opts))]) @
     (case Stop opts of
        None \<Rightarrow> []
      | Some ss \<Rightarrow> if ss = [] then [] else [(''stop'', JArray (map JString ss))]) @
     (if MaxTokens opts = 0 then [] else [(''max_tokens'', JInt (MaxTokens opts))]) @
     (if PresencePenalty opts = 0 then []
      else [(''presence_penalty'', JFloat (PresencePenalty opts))]) @
     (if FrequencyPenalty opts = 0 then []
      else [(''frequency_penalty'', JFloat (FrequencyPenalty opts))])"

definition float32_finite :: "float32 \<Rightarrow> bool" where
  "float32_finite f \<longleftrightarrow> f AND 0x7F800000 \<noteq> 0x7F800000"

definition finiteFloats :: "ChatCompletionOptions \<Rightarrow> bool" where
  "finiteFloats opts \<longleftrightarrow>
     float32_finite (Temperature opts) \<and> float32_finite (TopP opts) \<and>
     float32_finite (PresencePenalty opts) \<and> float32_finite (FrequencyPenalty opts)"

definition marshalOptions :: "ChatCompletionOptions \<Rightarrow> json \<times> error option" where
  "marshalOptions opts =
     (if finiteFloats opts then (JObject (optionsFields opts), None)
      else (JNull, Some (SerializationError ''json: unsupported value'')))"

subsection \<open>The JSON decoder\<close>

text \<open>
  Modelled from the spec: the helper \<^verbatim>\<open>unmarshal\<close>, which \<^verbatim>\<open>chat.go\<close> calls and does not
  define. The spec describes it as the JSON codec's unmarshal, which decodes the
  response body into the response structure and fails with a deserialization error on
  a body that does not match the expected shape. The member names are the \<^verbatim>\<open>json\<close> tags
  of lines 42 to 53, matched exactly. The members of an object are read in order, so
  the last of several members of one name decides; a member of another name is
  skipped; \<^verbatim>\<open>null\<close> leaves a string, a number or a structure as it is and makes a slice
  nil; a member of the wrong JSON type is an error. Every element of \<^verbatim>\<open>choices\<close> is
  decoded into a fresh zero-valued element. The body is the document the transport
  returned, already parsed: the syntax of JSON text is not modelled. On an error the
  structure is given back as it was passed in; \<open>ChatCompletion\<close> does not look at it.
\<close>

fun decodeString :: "string \<Rightarrow> json \<Rightarrow> string \<Rightarrow> error + string" where
  "decodeString k (JString s) cur = Inr s"
| "decodeString k JNull cur = Inr cur"
| "decodeString k v cur = Inl (DeserializationError k)"

fun decodeInt :: "string \<Rightarrow> json \<Rightarrow> int \<Rightarrow> error + int" where
  "decodeInt k (JInt n) cur = Inr n"
| "decodeInt k JNull cur = Inr cur"
| "decodeInt k v cur = Inl (DeserializationError k)"

fun decodeMembers ::
  "(string \<times> json \<Rightarrow> 'a \<Rightarrow> error + 'a) \<Rightarrow> (string \<times> json) list \<Rightarrow> 'a \<Rightarrow> error + 'a" where
  "decodeMembers f [] a = Inr a"
| "decodeMembers f (kv # kvs) a =
     (case f kv a of Inl e \<Rightarrow> Inl e | Inr a' \<Rightarrow> decodeMembers f kvs a')"

fun decodeObject ::
  "string \<Rightarrow> (string \<times> json \<Rightarrow> 'a \<Rightarrow> error + 'a) \<Rightarrow> json \<Rightarrow> 'a \<Rightarrow> error + 'a" where
  "decodeObject k f (JObject fs) cur = decodeMembers f fs cur"
| "decodeObject k f JNull cur = Inr cur"
| "decodeObject k f v cur = Inl (DeserializationError k)"

definition setMessageField :: "string \<times> json \<Rightarrow> ChatMessage \<Rightarrow> error + ChatMessage" where
  "setMessageField kv m =
     (case kv of (k, v) \<Rightarrow>
        if k = ''content'' then map_sum id (\<lambda>s. m\<lparr>Content := s\<rparr>) (decodeString k v (Content m))
        else if k = ''role'' then map_sum id (\<lambda>s. m\<lparr>Role := s\<rparr>) (decodeString k v (Role m))
        else Inr m)"

definition setChoiceField :: "string \<times> json \<Rightarrow> ChoicesItem \<Rightarrow> error + ChoicesItem" where
  "setChoiceField kv c =
     (case kv of (k, v) \<Rightarrow>
        if k = ''message''
        then map_sum id (\<lambda>m. c\<lparr>Message := m\<rparr>) (decodeObject k setMessageField v (Message c))
        else if k = ''index'' then map_sum id (\<lambda>n. c\<lparr>Index := n\<rparr>) (decodeInt k v (Index c))
        else if k = ''finish_reason''
        then map_sum id (\<lambda>s. c\<lparr>FinishReason := s\<rparr>) (decodeString k v (FinishReason c))
        else Inr c)"

definition zeroChoice :: ChoicesItem where
  "zeroChoice = \<lparr>Message = \<lparr>Content = [], Role = []\<rparr>, Index = 0, FinishReason = []\<rparr>"

fun decodeChoices :: "json list \<Rightarrow> error + ChoicesItem list" where
  "decodeChoices [] = Inr []"
| "decodeChoices (v # vs) =
     (case decodeObject ''choices'' setChoiceField v zeroChoice of
        Inl e \<Rightarrow> Inl e
      | Inr c \<Rightarrow> map_sum id ((#) c) (decodeChoices vs))"

fun decodeChoicesField :: "json \<Rightarrow> error + ChoicesItem list option" where
  "decodeChoicesField (JArray vs) = map_sum id Some (decodeChoices vs)"
| "decodeChoicesField JNull = Inr None"
| "decodeChoicesField v = Inl (DeserializationError ''choices'')"

definition setUsageField :: "string \<times> json \<Rightarrow> UsageStruct \<Rightarrow> error + UsageStruct" where
  "setUsageField kv u =
     (case kv of (k, v) \<Rightarrow>
        if k = ''prompt_tokens''
        then map_sum id (\<lambda>n. u\<lparr>PromptTokens := n\<rparr>) (decodeInt k v (PromptTokens u))
        else if k = ''completion_tokens''
        then map_sum id (\<lambda>n. u\<lparr>CompletionTokens := n\<rparr>) (decodeInt k v (CompletionTokens u))
        else if k = ''total_tokens''
        then map_sum id (\<lambda>n. u\<lparr>TotalTokens := n\<rparr>) (decodeInt k v (TotalTokens u))
        else Inr u)"

definition setResponseField ::
  "string \<times> json \<Rightarrow> ChatCompletionResponse \<Rightarrow> error + ChatCompletionResponse" where
  "setResponseField kv r =
     (case kv of (k, v) \<Rightarrow>
        if k = ''id'' then map_sum id (\<lambda>s. r\<lparr>Id := s\<rparr>) (decodeString k v (Id r))
        else if k = ''object'' then map_sum id (\<lambda>s. r\<lparr>Object := s\<rparr>) (decodeString k v (Object r))
        else if k = ''created'' then map_sum id (\<lambda>n. r\<lparr>Created := n\<rparr>) (decodeInt k v (Created r))
        else if k = ''choices'' then map_sum id (\<lambda>cs. r\<lparr>Choices := cs\<rparr>) (decodeChoicesField v)
        else if k = ''usage''
        then map_sum id (\<lambda>u. r\<lparr>Usage := u\<rparr>) (decodeObject k setUsageField v (Usage r))
        else Inr r)"

definition unmarshalResponse ::
  "json \<Rightarrow> ChatCompletionResponse \<Rightarrow> error option \<times> ChatCompletionResponse" where
  "unmarshalResponse body result =
     (case decodeObject ''response'' setResponseField body result of
        Inl e \<Rightarrow> (Some e, result)
      | Inr r \<Rightarrow> (None, r))"

text \<open>
  What it is for a structure to carry the values of a JSON object: the member of a
  given name is the last one of that name, and wherever the object has a member of the
  field's JSON type under the field's tag, the field equals it.
\<close>

definition jsonMember :: "string \<Rightarrow> (string \<times> json) list \<Rightarrow> json option" where
  "jsonMember k fs = map_of (rev fs) k"

definition agreesString :: "string \<Rightarrow> (string \<times> json) list \<Rightarrow> string \<Rightarrow> bool" where
  "agreesString k fs x = (case jsonMember k fs of Some (JString s) \<Rightarrow> x = s | _ \<Rightarrow> True)"

definition agreesInt :: "string \<Rightarrow> (string \<times> json) list \<Rightarrow> int \<Rightarrow> bool" where
  "agreesInt k fs x = (case jsonMember k fs of Some (JInt n) \<Rightarrow> x = n | _ \<Rightarrow> True)"

definition messageAgrees :: "(string \<times> json) list \<Rightarrow> ChatMessage \<Rightarrow> bool" where
  "messageAgrees fs m \<longleftrightarrow>
     agreesString ''content'' fs (Content m) \<and> agreesString ''role'' fs (Role m)"

definition choiceAgrees :: "json \<Rightarrow> ChoicesItem \<Rightarrow> bool" where
  "choiceAgrees v c =
     (case v of
        JObject fs \<Rightarrow>
          agreesInt ''index'' fs (Index c) \<and>
          agreesString ''finish_reason'' fs (FinishReason c) \<and>
          (case jsonMember ''message'' fs of
             Some (JObject ms) \<Rightarrow> messageAgrees ms (Message c)
           | _ \<Rightarrow> True)
      | _ \<Rightarrow> True)"

definition usageAgrees :: "(string \<times> json) list \<Rightarrow> UsageStruct \<Rightarrow> bool" where
  "usageAgrees fs u \<longleftrightarrow>
     agreesInt ''prompt_tokens'' fs (PromptTokens u) \<and>
     agreesInt ''completion_tokens'' fs (CompletionTokens u) \<and>
     agreesInt ''total_tokens'' fs (TotalTokens u)"

definition responseAgrees :: "(string \<times> json) list \<Rightarrow> ChatCompletionResponse \<Rightarrow> bool" where
  "responseAgrees fs r \<longleftrightarrow>
     agreesString ''id'' fs (Id r) \<and>
     agreesString ''object'' fs (Object r) \<and>
     agreesInt ''created'' fs (Created r) \<and>
     (case jsonMember ''choices'' fs of
        Some (JArray vs) \<Rightarrow>
          (case Choices r of None \<Rightarrow> False | Some cs \<Rightarrow> list_all2 choiceAgrees vs cs)
      | _ \<Rightarrow> True) \<and>
     (case jsonMember ''usage'' fs of
        Some (JObject us) \<Rightarrow> usageAgrees us (Usage r)
      | _ \<Rightarrow> True)"

subsection \<open>Test doubles\<close>

text \<open>
  A transport double that records what it is given and answers as told, a decoder
  double that accepts one body, and the options of the spec's scenario. The value 16 of
  the default below is an example: the constant is a parameter of every theorem.
\<close>

record request =
  reqMethod :: string
  reqURL :: string
  reqEncoding :: string
  reqBody :: json

definition stubUnmarshal ::
  "string \<Rightarrow> ChatCompletionResponse \<Rightarrow> error option \<times> ChatCompletionResponse" where
  "stubUnmarshal resp result =
     (if resp = ''ok'' then (None, result\<lparr>Id := ''chatcmpl-1'', Object := ''chat.completion''\<rparr>)
      else (Some (DeserializationError ''invalid character''), result))"

definition stubPackage :: "(json, string) Package" where
  "stubPackage =
     \<lparr>defaultMaxTokens = 16, marshalJson = marshalOptions, unmarshal = stubUnmarshal\<rparr>"

definition stubEngine ::
  "error option \<Rightarrow> string \<times> error option \<Rightarrow> (unit, json, request, string) Engine" where
  "stubEngine newReqErr answer =
     \<lparr>apiBaseURL = ''https://api.openai.com/v1'',
      validate = StructCtx,
      newReq = (\<lambda>ctx method uri enc b.
                  (\<lparr>reqMethod = method, reqURL = uri, reqEncoding = enc, reqBody = b\<rparr>,
                   newReqErr)),
      doReq = (\<lambda>req. answer)\<rparr>"

text \<open>
  The package with the JSON decoder in place of the decoder double, a transport double
  that answers with a JSON document, the members of a response body (one for every
  field of the structure, and one the structure has no field for), and the structure
  that carries their values.
\<close>

definition jsonPackage :: "(json, json) Package" where
  "jsonPackage =
     \<lparr>defaultMaxTokens = 16, marshalJson = marshalOptions, unmarshal = unmarshalResponse\<rparr>"

definition jsonEngine :: "json \<times> error option \<Rightarrow> (unit, json, request, json) Engine" where
  "jsonEngine answer =
     \<lparr>apiBaseURL = ''https://api.openai.com/v1'',
      validate = StructCtx,
      newReq = (\<lambda>ctx method uri enc b.
                  (\<lparr>reqMethod = method, reqURL = uri, reqEncoding = enc, reqBody = b\<rparr>, None)),
      doReq = (\<lambda>req. answer)\<rparr>"

definition sampleMembers :: "(string \<times> json) list" where
  "sampleMembers =
     [(''id'', JString ''chatcmpl-1''),
      (''object'', JString ''chat.completion''),
      (''created'', JInt 1677652288),
      (''model'', JString ''gpt-x''),
      (''choices'',
       JArray
         [JObject
            [(''index'', JInt 0),
             (''message'',
              JObject [(''role'', JString ''assistant''), (''content'', JString ''hello'')]),
             (''finish_reason'', JString ''stop'')]]),
      (''usage'',
       JObject
         [(''prompt_tokens'', JInt 9), (''completion_tokens'', JInt 12),
          (''total_tokens'', JInt 21)])]"

definition sampleResponse :: ChatCompletionResponse where
  "sampleResponse =
     \<lparr>Id = ''chatcmpl-1'', Object = ''chat.completion'', Created = 1677652288,
      Choices = Some [\<lparr>Message = \<lparr>Content = ''hello'', Role = ''assistant''\<rparr>, Index = 0,
                       FinishReason = ''stop''\<rparr>],
      Usage = \<lparr>PromptTokens = 9, CompletionTokens = 12, TotalTokens = 21\<rparr>\<rparr>"

definition sampleOptions :: ChatCompletionOptions where
  "sampleOptions =
     \<lparr>Model = ''gpt-x'', Messages = Some [\<lparr>Content = ''hi'', Role = ''user''\<rparr>],
      Temperature = 0, TopP = 0, N = 0, Stop = None, MaxTokens = 0,
      PresencePenalty = 0, FrequencyPenalty = 0\<rparr>"

section \<open>The branches of the pipeline\<close>

text \<open>
  One equation per return statement of \<open>ChatCompletion\<close>: what the call leaves behind
  when the named stage is the first to fail, and when none does.
\<close>

lemma ChatCompletion_validate_error:
  assumes "validate e ctx opts = Some x"
  shows "ChatCompletion p e ctx opts =
           \<lparr>ret_response = None, ret_err = Some x, opts_after = opts,
            calls = [CallValidate ctx opts]\<rparr>"
  using assms by (simp add: ChatCompletion_def)

lemma ChatCompletion_marshalJson_error:
  assumes "validate e ctx opts = None"
      and "marshalJson p (defaulted p opts) = (b, Some x)"
  shows "ChatCompletion p e ctx opts =
           \<lparr>ret_response = None, ret_err = Some x, opts_after = defaulted p opts,
            calls = [CallValidate ctx opts, CallMarshalJson (defaulted p opts)]\<rparr>"
  using assms by (simp add: ChatCompletion_def Let_def)

lemma ChatCompletion_newReq_error:
  assumes "validate e ctx opts = None"
      and "marshalJson p (defaulted p opts) = (b, None)"
      and "newReq e ctx ''POST'' (chatURI e) ''json'' b = (req, Some x)"
  shows "ChatCompletion p e ctx opts =
           \<lparr>ret_response = None, ret_err = Some x, opts_after = defaulted p opts,
            calls = [CallValidate ctx opts, CallMarshalJson (defaulted p opts),
                     CallNewReq ctx ''POST'' (chatURI e) ''json'' b]\<rparr>"
  using assms by (simp add: ChatCompletion_def Let_def)

lemma ChatCompletion_doReq_error:
  assumes "validate e ctx opts = None"
      and "marshalJson p (defaulted p opts) = (b, None)"
      and "newReq e ctx ''POST'' (chatURI e) ''json'' b = (req, None)"
      and "doReq e req = (resp, Some x)"
  shows "ChatCompletion p e ctx opts =
           \<lparr>ret_response = None, ret_err = Some x, opts_after = defaulted p opts,
            calls = [CallValidate ctx opts, CallMarshalJson (defaulted p opts),
                     CallNewReq ctx ''POST'' (chatURI e) ''json'' b, CallDoReq req]\<rparr>"
  using assms by (simp add: ChatCompletion_def Let_def)

lemma ChatCompletion_unmarshal_error:
  assumes "validate e ctx opts = None"
      and "marshalJson p (defaulted p opts) = (b, None)"
      and "newReq e ctx ''POST'' (chatURI e) ''json'' b = (req, None)"
      and "doReq e req = (resp, None)"
      and "unmarshal p resp zeroResponse = (Some x, r)"
  shows "ChatCompletion p e ctx opts =
           \<lparr>ret_response = None, ret_err = Some x, opts_after = defaulted p opts,
            calls = [CallValidate ctx opts, CallMarshalJson (defaulted p opts),
                     CallNewReq ctx ''POST'' (chatURI e) ''json'' b, CallDoReq req,
                     CallUnmarshal resp]\<rparr>"
  using assms by (simp add: ChatCompletion_def Let_def)

lemma ChatCompletion_success:
  assumes "validate e ctx opts = None"
      and "marshalJson p (defaulted p opts) = (b, None)"
      and "newReq e ctx ''POST'' (chatURI e) ''json'' b = (req, None)"
      and "doReq e req = (resp, None)"
      and "unmarshal p resp zeroResponse = (None, r)"
  shows "ChatCompletion p e ctx opts =
           \<lparr>ret_response = Some r, ret_err = None, opts_after = defaulted p opts,
            calls = [CallValidate ctx opts, CallMarshalJson (defaulted p opts),
                     CallNewReq ctx ''POST'' (chatURI e) ''json'' b, CallDoReq req,
                     CallUnmarshal resp]\<rparr>"
  using assms by (simp add: ChatCompletion_def Let_def)

text \<open>Every call takes exactly one of the six branches.\<close>

lemma ChatCompletion_cases
  [case_names validate_error marshalJson_error newReq_error doReq_error unmarshal_error success]:
  obtains
    x where "validate e ctx opts = Some x"
      and "ChatCompletion p e ctx opts =
             \<lparr>ret_response = None, ret_err = Some x, opts_after = opts,
              calls = [CallValidate ctx opts]\<rparr>"
  | b x where "validate e ctx opts = None"
      and "marshalJson p (defaulted p opts) = (b, Some x)"
      and "ChatCompletion p e ctx opts =
             \<lparr>ret_response = None, ret_err = Some x, opts_after = defaulted p opts,
              calls = [CallValidate ctx opts, CallMarshalJson (defaulted p opts)]\<rparr>"
  | b req x where "validate e ctx opts = None"
      and "marshalJson p (defaulted p opts) = (b, None)"
      and "newReq e ctx ''POST'' (chatURI e) ''json'' b = (req, Some x)"
      and "ChatCompletion p e ctx opts =
             \<lparr>ret_response = None, ret_err = Some x, opts_after = defaulted p opts,
              calls = [CallValidate ctx opts, CallMarshalJson (defaulted p opts),
                       CallNewReq ctx ''POST'' (chatURI e) ''json'' b]\<rparr>"
  | b req resp x where "validate e ctx opts = None"
      and "marshalJson p (defaulted p opts) = (b, None)"
      and "newReq e ctx ''POST'' (chatURI e) ''json'' b = (req, None)"
      and "doReq e req = (resp, Some x)"
      and "ChatCompletion p e ctx opts =
             \<lparr>ret_response = None, ret_err = Some x, opts_after = defaulted p opts,
              calls = [CallValidate ctx opts, CallMarshalJson (defaulted p opts),
                       CallNewReq ctx ''POST'' (chatURI e) ''json'' b, CallDoReq req]\<rparr>"
  | b req resp x r where "validate e ctx opts = None"
      and "marshalJson p (defaulted p opts) = (b, None)"
      and "newReq e ctx ''POST'' (chatURI e) ''json'' b = (req, None)"
      and "doReq e req = (resp, None)"
      and "unmarshal p resp zeroResponse = (Some x, r)"
      and "ChatCompletion p e ctx opts =
             \<lparr>ret_response = None, ret_err = Some x, opts_after = defaulted p opts,
              calls = [CallValidate ctx opts, CallMarshalJson (defaulted p opts),
                       CallNewReq ctx ''POST'' (chatURI e) ''json'' b, CallDoReq req,
                       CallUnmarshal resp]\<rparr>"
  | b req resp r where "validate e ctx opts = None"
      and "marshalJson p (defaulted p opts) = (b, None)"
      and "newReq e ctx ''POST'' (chatURI e) ''json'' b = (req, None)"
      and "doReq e req = (resp, None)"
      and "unmarshal p resp zeroResponse = (None, r)"
      and "ChatCompletion p e ctx opts =
             \<lparr>ret_response = Some r, ret_err = None, opts_after = defaulted p opts,
              calls = [CallValidate ctx opts, CallMarshalJson (defaulted p opts),
                       CallNewReq ctx ''POST'' (chatURI e) ''json'' b, CallDoReq req,
                       CallUnmarshal resp]\<rparr>"
proof (cases "validate e ctx opts")
  case (Some x)
  show ?thesis
    by (rule that(1) [OF Some ChatCompletion_validate_error [OF Some]])
next
  case None
  note v = this
  obtain b me where m: "marshalJson p (defaulted p opts) = (b, me)"
    by (cases "marshalJson p (defaulted p opts)")
  show ?thesis
  proof (cases me)
    case (Some x)
    note m = m [unfolded Some]
    show ?thesis
      by (rule that(2) [OF v m ChatCompletion_marshalJson_error [OF v m]])
  next
    case None
    note m = m [unfolded None]
    obtain req ne where n: "newReq e ctx ''POST'' (chatURI e) ''json'' b = (req, ne)"
      by (cases "newReq e ctx ''POST'' (chatURI e) ''json'' b")
    show ?thesis
    proof (cases ne)
      case (Some x)
      note n = n [unfolded Some]
      show ?thesis
        by (rule that(3) [OF v m n ChatCompletion_newReq_error [OF v m n]])
    next
      case None
      note n = n [unfolded None]
      obtain resp de where d: "doReq e req = (resp, de)"
        by (cases "doReq e req")
      show ?thesis
      proof (cases de)
        case (Some x)
        note d = d [unfolded Some]
        show ?thesis
          by (rule that(4) [OF v m n d ChatCompletion_doReq_error [OF v m n d]])
      next
        case None
        note d = d [unfolded None]
        obtain ue r where u: "unmarshal p resp zeroResponse = (ue, r)"
          by (cases "unmarshal p resp zeroResponse")
        show ?thesis
        proof (cases ue)
          case (Some x)
          note u = u [unfolded Some]
          show ?thesis
            by (rule that(5) [OF v m n d u ChatCompletion_unmarshal_error [OF v m n d u]])
        next
          case None
          note u = u [unfolded None]
          show ?thesis
            by (rule that(6) [OF v m n d u ChatCompletion_success [OF v m n d u]])
        qed
      qed
    qed
  qed
qed

text \<open>
  A body reaches \<^verbatim>\<open>newReq\<close> exactly when validation and serialization succeed, and it
  is then the serialization of the options after the default has been applied.
\<close>

lemma ChatCompletion_sends_serialized_body:
  assumes "validate e ctx opts = None"
      and "marshalJson p (defaulted p opts) = (b, None)"
  shows "sentBodies (calls (ChatCompletion p e ctx opts)) = [b]"
proof -
  obtain req ne where n: "newReq e ctx ''POST'' (chatURI e) ''json'' b = (req, ne)"
    by (cases "newReq e ctx ''POST'' (chatURI e) ''json'' b")
  obtain resp de where d: "doReq e req = (resp, de)"
    by (cases "doReq e req")
  obtain ue r where u: "unmarshal p resp zeroResponse = (ue, r)"
    by (cases "unmarshal p resp zeroResponse")
  show ?thesis
  proof (cases ne)
    case (Some x)
    then show ?thesis
      using ChatCompletion_newReq_error [OF assms] n
      by (simp add: sentBodies_def List.map_filter_simps)
  next
    case None
    note ne = this
    show ?thesis
    proof (cases de)
      case (Some x)
      then show ?thesis
        using ChatCompletion_doReq_error [OF assms] n d ne
        by (simp add: sentBodies_def List.map_filter_simps)
    next
      case None
      then show ?thesis
        using ChatCompletion_unmarshal_error [OF assms] ChatCompletion_success [OF assms]
          n d u ne
        by (cases ue) (simp_all add: sentBodies_def List.map_filter_simps)
    qed
  qed
qed

lemma sentBodies_serialized:
  assumes "b \<in> set (sentBodies (calls (ChatCompletion p e ctx opts)))"
  shows "validate e ctx opts = None \<and> marshalJson p (defaulted p opts) = (b, None)"
proof (cases "validate e ctx opts")
  case (Some x)
  then show ?thesis
    using assms by (simp add: ChatCompletion_validate_error sentBodies_def List.map_filter_simps)
next
  case None
  note v = this
  obtain b' me where m: "marshalJson p (defaulted p opts) = (b', me)"
    by (cases "marshalJson p (defaulted p opts)")
  show ?thesis
  proof (cases me)
    case (Some x)
    then show ?thesis
      using assms ChatCompletion_marshalJson_error [OF v] m
      by (simp add: sentBodies_def List.map_filter_simps)
  next
    case None
    then show ?thesis
      using assms ChatCompletion_sends_serialized_body [OF v] m v
      by simp
  qed
qed

subsection \<open>Facts about the validator and the encoder\<close>

lemma StructCtx_enforcesRequired: "enforcesRequired StructCtx"
  by (auto simp: enforcesRequired_def StructCtx_def missingRequired_def)

lemma optionsFields_keys:
  "map fst (optionsFields opts) =
     [''model'', ''messages''] @
     (if Temperature opts = 0 then [] else [''temperature'']) @
     (if TopP opts = 0 then [] else [''top_p'']) @
     (if N opts = 0 then [] else [''n'']) @
     (if Stop opts = None \<or> Stop opts = Some [] then [] else [''stop'']) @
     (if MaxTokens opts = 0 then [] else [''max_tokens'']) @
     (if PresencePenalty opts = 0 then [] else [''presence_penalty'']) @
     (if FrequencyPenalty opts = 0 then [] else [''frequency_penalty''])"
proof -
  have one: "\<And>c k v. map fst (if c then [] else [(k, v)]) = (if c then [] else [k::string])"
    by simp
  have stop: "map fst (case Stop opts of None \<Rightarrow> []
                | Some ss \<Rightarrow> if ss = [] then [] else [(''stop'', JArray (map JString ss))])
              = (if Stop opts = None \<or> Stop opts = Some [] then [] else [''stop''])"
    by (cases "Stop opts") simp_all
  show ?thesis
    unfolding optionsFields_def map_append one stop by simp
qed

lemma distinct_keys: "distinct (map fst (optionsFields opts))"
  unfolding optionsFields_keys by simp

lemma map_of_optionsFields_max_tokens:
  "map_of (optionsFields opts) ''max_tokens''
     = (if MaxTokens opts = 0 then None else Some (JInt (MaxTokens opts)))"
proof (cases "MaxTokens opts = 0")
  case True
  then have "''max_tokens'' \<notin> set (map fst (optionsFields opts))"
    unfolding optionsFields_keys by simp
  then show ?thesis
    using True by (simp add: map_of_eq_None_iff)
next
  case False
  then have "(''max_tokens'', JInt (MaxTokens opts)) \<in> set (optionsFields opts)"
    by (simp add: optionsFields_def)
  then show ?thesis
    using False distinct_keys [of opts] by simp
qed

lemma optionsFields_omitempty:
  "Temperature opts = 0 \<Longrightarrow> ''temperature'' \<notin> fst ` set (optionsFields opts)"
  "TopP opts = 0 \<Longrightarrow> ''top_p'' \<notin> fst ` set (optionsFields opts)"
  "N opts = 0 \<Longrightarrow> ''n'' \<notin> fst ` set (optionsFields opts)"
  "Stop opts = None \<Longrightarrow> ''stop'' \<notin> fst ` set (optionsFields opts)"
  "PresencePenalty opts = 0 \<Longrightarrow> ''presence_penalty'' \<notin> fst ` set (optionsFields opts)"
  "FrequencyPenalty opts = 0 \<Longrightarrow> ''frequency_penalty'' \<notin> fst ` set (optionsFields opts)"
  unfolding set_map [symmetric] optionsFields_keys by simp_all

subsection \<open>Facts about the decoder\<close>

text \<open>
  The last member of a name decides: whatever decoding that member establishes, the
  members after it, all of other names, keep.
\<close>

lemma map_sum_id_Inr: "map_sum id f s = Inr y \<longleftrightarrow> (\<exists>x. s = Inr x \<and> y = f x)"
  by (cases s) auto

lemma decodeString_Inr:
  "decodeString k v cur = Inr y \<longleftrightarrow> v = JString y \<or> (v = JNull \<and> y = cur)"
  by (cases v) auto

lemma decodeInt_Inr:
  "decodeInt k v cur = Inr y \<longleftrightarrow> v = JInt y \<or> (v = JNull \<and> y = cur)"
  by (cases v) auto

lemma decodeMembers_preserves:
  assumes "decodeMembers f fs a = Inr a'"
      and "Q a"
      and "\<And>kv x y. kv \<in> set fs \<Longrightarrow> f kv x = Inr y \<Longrightarrow> Q x \<Longrightarrow> Q y"
  shows "Q a'"
  using assms
proof (induction fs arbitrary: a)
  case Nil
  then show ?case by simp
next
  case (Cons kv kvs)
  from Cons.prems(1) obtain a1 where s: "f kv a = Inr a1" and r: "decodeMembers f kvs a1 = Inr a'"
    by (auto split: sum.splits)
  have "Q a1"
    using Cons.prems(3) [OF _ s Cons.prems(2)] by simp
  show ?case
  proof (rule Cons.IH [OF r \<open>Q a1\<close>])
    fix kv' x y
    assume "kv' \<in> set kvs" and "f kv' x = Inr y" and "Q x"
    then show "Q y"
      using Cons.prems(3) [of kv' x y] by simp
  qed
qed

lemma decodeMembers_last:
  assumes "decodeMembers f fs a = Inr a'"
      and "jsonMember k fs = Some v"
      and est: "\<And>x y. f (k, v) x = Inr y \<Longrightarrow> Q y"
      and pres: "\<And>k' v' x y. k' \<noteq> k \<Longrightarrow> f (k', v') x = Inr y \<Longrightarrow> Q x \<Longrightarrow> Q y"
  shows "Q a'"
  using assms(1,2)
proof (induction fs arbitrary: a)
  case Nil
  then show ?case by (simp add: jsonMember_def)
next
  case (Cons kv kvs)
  from Cons.prems(1) obtain a1 where s: "f kv a = Inr a1" and r: "decodeMembers f kvs a1 = Inr a'"
    by (auto split: sum.splits)
  show ?case
  proof (cases "jsonMember k kvs")
    case (Some v')
    then have "v' = v"
      using Cons.prems(2) by (simp add: jsonMember_def)
    then show ?thesis
      using Cons.IH [OF r] Some by simp
  next
    case None
    then have absent: "k \<notin> fst ` set kvs"
      by (simp add: jsonMember_def map_of_eq_None_iff)
    have kv: "kv = (k, v)"
      using Cons.prems(2) None
      by (cases kv) (simp add: jsonMember_def map_add_def split: if_splits option.splits)
    have q1: "Q a1"
      using est s kv by simp
    show ?thesis
    proof (rule decodeMembers_preserves [where Q = Q, OF r q1])
      fix kv' x y
      assume "kv' \<in> set kvs" and "f kv' x = Inr y" and "Q x"
      then show "Q y"
        using pres [of "fst kv'" "snd kv'" x y] absent by force
    qed
  qed
qed

lemma agreesString_decoded:
  assumes "decodeMembers f fs a = Inr a'"
      and est: "\<And>s x y. f (k, JString s) x = Inr y \<Longrightarrow> g y = s"
      and pres: "\<And>k' v' x y. k' \<noteq> k \<Longrightarrow> f (k', v') x = Inr y \<Longrightarrow> g y = g x"
  shows "agreesString k fs (g a')"
proof (cases "jsonMember k fs")
  case None
  then show ?thesis by (simp add: agreesString_def)
next
  case (Some v)
  show ?thesis
  proof (cases v)
    case (JString s)
    have "g a' = s"
    proof (rule decodeMembers_last [OF assms(1) Some [unfolded JString], where Q = "\<lambda>y. g y = s"])
      show "\<And>x y. f (k, JString s) x = Inr y \<Longrightarrow> g y = s"
        by (rule est)
      show "\<And>k' v' x y. k' \<noteq> k \<Longrightarrow> f (k', v') x = Inr y \<Longrightarrow> g x = s \<Longrightarrow> g y = s"
        using pres by simp
    qed
    then show ?thesis
      by (simp add: agreesString_def Some JString)
  qed (simp_all add: agreesString_def Some)
qed

lemma agreesInt_decoded:
  assumes "decodeMembers f fs a = Inr a'"
      and est: "\<And>n x y. f (k, JInt n) x = Inr y \<Longrightarrow> g y = n"
      and pres: "\<And>k' v' x y. k' \<noteq> k \<Longrightarrow> f (k', v') x = Inr y \<Longrightarrow> g y = g x"
  shows "agreesInt k fs (g a')"
proof (cases "jsonMember k fs")
  case None
  then show ?thesis by (simp add: agreesInt_def)
next
  case (Some v)
  show ?thesis
  proof (cases v)
    case (JInt n)
    have "g a' = n"
    proof (rule decodeMembers_last [OF assms(1) Some [unfolded JInt], where Q = "\<lambda>y. g y = n"])
      show "\<And>x y. f (k, JInt n) x = Inr y \<Longrightarrow> g y = n"
        by (rule est)
      show "\<And>k' v' x y. k' \<noteq> k \<Longrightarrow> f (k', v') x = Inr y \<Longrightarrow> g x = n \<Longrightarrow> g y = n"
        using pres by simp
    qed
    then show ?thesis
      by (simp add: agreesInt_def Some JInt)
  qed (simp_all add: agreesInt_def Some)
qed

lemma messageAgrees_decoded:
  assumes "decodeMembers setMessageField fs m = Inr m'"
  shows "messageAgrees fs m'"
  unfolding messageAgrees_def
proof (intro conjI)
  show "agreesString ''content'' fs (Content m')"
    by (rule agreesString_decoded [OF assms])
       (auto simp: setMessageField_def map_sum_id_Inr decodeString_Inr split: if_splits)
  show "agreesString ''role'' fs (Role m')"
    by (rule agreesString_decoded [OF assms])
       (auto simp: setMessageField_def map_sum_id_Inr decodeString_Inr split: if_splits)
qed

lemma usageAgrees_decoded:
  assumes "decodeMembers setUsageField fs u = Inr u'"
  shows "usageAgrees fs u'"
  unfolding usageAgrees_def
proof (intro conjI)
  show "agreesInt ''prompt_tokens'' fs (PromptTokens u')"
    by (rule agreesInt_decoded [OF assms])
       (auto simp: setUsageField_def map_sum_id_Inr decodeInt_Inr split: if_splits)
  show "agreesInt ''completion_tokens'' fs (CompletionTokens u')"
    by (rule agreesInt_decoded [OF assms])
       (auto simp: setUsageField_def map_sum_id_Inr decodeInt_Inr split: if_splits)
  show "agreesInt ''total_tokens'' fs (TotalTokens u')"
    by (rule agreesInt_decoded [OF assms])
       (auto simp: setUsageField_def map_sum_id_Inr decodeInt_Inr split: if_splits)
qed

lemma setChoiceField_message:
  assumes "setChoiceField (''message'', JObject ms) x = Inr y"
  shows "messageAgrees ms (Message y)"
proof -
  from assms obtain m' where "decodeMembers setMessageField ms (Message x) = Inr m'"
    and "y = x\<lparr>Message := m'\<rparr>"
    by (auto simp: setChoiceField_def map_sum_id_Inr)
  then show ?thesis
    by (simp add: messageAgrees_decoded)
qed

lemma setChoiceField_other:
  assumes "k \<noteq> ''message''" and "setChoiceField (k, v) x = Inr y"
  shows "Message y = Message x"
  using assms by (auto simp: setChoiceField_def map_sum_id_Inr split: if_splits)

lemma choiceAgrees_decoded:
  assumes "decodeObject ''choices'' setChoiceField v zeroChoice = Inr c"
  shows "choiceAgrees v c"
proof (cases v)
  case (JObject fs)
  then have dec: "decodeMembers setChoiceField fs zeroChoice = Inr c"
    using assms by simp
  have i: "agreesInt ''index'' fs (Index c)"
    by (rule agreesInt_decoded [OF dec])
       (auto simp: setChoiceField_def map_sum_id_Inr decodeInt_Inr split: if_splits)
  have f: "agreesString ''finish_reason'' fs (FinishReason c)"
    by (rule agreesString_decoded [OF dec])
       (auto simp: setChoiceField_def map_sum_id_Inr decodeString_Inr split: if_splits)
  have m: "messageAgrees ms (Message c)" if "jsonMember ''message'' fs = Some (JObject ms)" for ms
  proof (rule decodeMembers_last [OF dec that, where Q = "\<lambda>y. messageAgrees ms (Message y)"])
    show "\<And>x y. setChoiceField (''message'', JObject ms) x = Inr y
            \<Longrightarrow> messageAgrees ms (Message y)"
      by (rule setChoiceField_message)
    show "\<And>k' v' x y. k' \<noteq> ''message'' \<Longrightarrow> setChoiceField (k', v') x = Inr y
            \<Longrightarrow> messageAgrees ms (Message x) \<Longrightarrow> messageAgrees ms (Message y)"
      by (simp add: setChoiceField_other)
  qed
  show ?thesis
    using i f m by (simp add: choiceAgrees_def JObject split: option.split json.split)
qed (simp_all add: choiceAgrees_def)

lemma choicesAgree_decoded:
  assumes "decodeChoices vs = Inr cs"
  shows "list_all2 choiceAgrees vs cs"
  using assms
proof (induction vs arbitrary: cs)
  case Nil
  then show ?case by simp
next
  case (Cons v vs)
  from Cons.prems obtain c cs' where c: "decodeObject ''choices'' setChoiceField v zeroChoice = Inr c"
    and r: "decodeChoices vs = Inr cs'" and cs: "cs = c # cs'"
    by (auto simp: map_sum_id_Inr split: sum.splits)
  show ?case
    using choiceAgrees_decoded [OF c] Cons.IH [OF r] cs by simp
qed

lemma setResponseField_choices:
  assumes "setResponseField (''choices'', JArray vs) x = Inr y"
  shows "\<exists>cs. Choices y = Some cs \<and> list_all2 choiceAgrees vs cs"
proof -
  from assms obtain cs where "decodeChoices vs = Inr cs" and "y = x\<lparr>Choices := Some cs\<rparr>"
    by (auto simp: setResponseField_def map_sum_id_Inr)
  then show ?thesis
    by (simp add: choicesAgree_decoded)
qed

lemma setResponseField_usage:
  assumes "setResponseField (''usage'', JObject us) x = Inr y"
  shows "usageAgrees us (Usage y)"
proof -
  from assms obtain u where "decodeMembers setUsageField us (Usage x) = Inr u"
    and "y = x\<lparr>Usage := u\<rparr>"
    by (auto simp: setResponseField_def map_sum_id_Inr)
  then show ?thesis
    by (simp add: usageAgrees_decoded)
qed

lemma setResponseField_other:
  assumes "setResponseField (k, v) x = Inr y"
  shows "k \<noteq> ''choices'' \<Longrightarrow> Choices y = Choices x"
    and "k \<noteq> ''usage'' \<Longrightarrow> Usage y = Usage x"
  using assms by (auto simp: setResponseField_def map_sum_id_Inr split: if_splits)

lemma responseAgrees_decoded:
  assumes "decodeMembers setResponseField fs r0 = Inr r"
  shows "responseAgrees fs r"
proof -
  have i: "agreesString ''id'' fs (Id r)"
    by (rule agreesString_decoded [OF assms])
       (auto simp: setResponseField_def map_sum_id_Inr decodeString_Inr split: if_splits)
  have ob: "agreesString ''object'' fs (Object r)"
    by (rule agreesString_decoded [OF assms])
       (auto simp: setResponseField_def map_sum_id_Inr decodeString_Inr split: if_splits)
  have cr: "agreesInt ''created'' fs (Created r)"
    by (rule agreesInt_decoded [OF assms])
       (auto simp: setResponseField_def map_sum_id_Inr decodeInt_Inr split: if_splits)
  have ch: "\<exists>cs. Choices r = Some cs \<and> list_all2 choiceAgrees vs cs"
    if "jsonMember ''choices'' fs = Some (JArray vs)" for vs
  proof (rule decodeMembers_last [OF assms that,
        where Q = "\<lambda>y. \<exists>cs. Choices y = Some cs \<and> list_all2 choiceAgrees vs cs"])
    show "\<And>x y. setResponseField (''choices'', JArray vs) x = Inr y
            \<Longrightarrow> \<exists>cs. Choices y = Some cs \<and> list_all2 choiceAgrees vs cs"
      by (rule setResponseField_choices)
    show "\<And>k' v' x y. k' \<noteq> ''choices'' \<Longrightarrow> setResponseField (k', v') x = Inr y
            \<Longrightarrow> \<exists>cs. Choices x = Some cs \<and> list_all2 choiceAgrees vs cs
            \<Longrightarrow> \<exists>cs. Choices y = Some cs \<and> list_all2 choiceAgrees vs cs"
      by (simp add: setResponseField_other(1))
  qed
  have us: "usageAgrees us (Usage r)" if "jsonMember ''usage'' fs = Some (JObject us)" for us
  proof (rule decodeMembers_last [OF assms that, where Q = "\<lambda>y. usageAgrees us (Usage y)"])
    show "\<And>x y. setResponseField (''usage'', JObject us) x = Inr y
            \<Longrightarrow> usageAgrees us (Usage y)"
      by (rule setResponseField_usage)
    show "\<And>k' v' x y. k' \<noteq> ''usage'' \<Longrightarrow> setResponseField (k', v') x = Inr y
            \<Longrightarrow> usageAgrees us (Usage x) \<Longrightarrow> usageAgrees us (Usage y)"
      by (simp add: setResponseField_other(2))
  qed
  have ch': "(case jsonMember ''choices'' fs of
        Some (JArray vs) \<Rightarrow>
          (case Choices r of None \<Rightarrow> False | Some cs \<Rightarrow> list_all2 choiceAgrees vs cs)
      | _ \<Rightarrow> True)"
    using ch by (auto split: option.split json.split)
  have us': "(case jsonMember ''usage'' fs of
        Some (JObject us) \<Rightarrow> usageAgrees us (Usage r)
      | _ \<Rightarrow> True)"
    using us by (simp split: option.split json.split)
  show ?thesis
    unfolding responseAgrees_def by (intro conjI i ob cr ch' us')
qed

lemma unmarshalResponse_agrees:
  assumes "unmarshalResponse (JObject fs) result = (None, r)"
  shows "responseAgrees fs r"
proof -
  from assms have "decodeMembers setResponseField fs result = Inr r"
    by (simp add: unmarshalResponse_def split: sum.splits)
  then show ?thesis
    by (rule responseAgrees_decoded)
qed

section \<open>Properties\<close>

text \<open>
  C1. Options that miss \<^verbatim>\<open>Model\<close> or \<^verbatim>\<open>Messages\<close> are answered with the validator's
  error, a nil response, and no other collaborator is invoked: the only call made is
  the validation itself, so nothing is serialized and neither \<^verbatim>\<open>newReq\<close> nor \<^verbatim>\<open>doReq\<close>
  runs. The validator is any function that enforces the two \<^verbatim>\<open>required\<close> tags.
\<close>

theorem ChatCompletion_missing_required:
  assumes "Model opts = [] \<or> Messages opts = None"
      and "enforcesRequired (validate e)"
  shows "\<exists>fields. ret_err (ChatCompletion p e ctx opts) = Some (ValidationError fields)
           \<and> validate e ctx opts = Some (ValidationError fields)
           \<and> ret_response (ChatCompletion p e ctx opts) = None
           \<and> calls (ChatCompletion p e ctx opts) = [CallValidate ctx opts]"
proof -
  from assms obtain fields where v: "validate e ctx opts = Some (ValidationError fields)"
    unfolding enforcesRequired_def by blast
  show ?thesis
    using v by (simp add: ChatCompletion_validate_error)
qed

theorem ChatCompletion_missing_required_witness:
  "ret_err (ChatCompletion stubPackage (stubEngine None (''ok'', None)) ()
             (sampleOptions\<lparr>Messages := None\<rparr>))
     = Some (ValidationError [''Messages''])
   \<and> ret_response (ChatCompletion stubPackage (stubEngine None (''ok'', None)) ()
             (sampleOptions\<lparr>Messages := None\<rparr>)) = None
   \<and> calls (ChatCompletion stubPackage (stubEngine None (''ok'', None)) ()
             (sampleOptions\<lparr>Messages := None\<rparr>))
     = [CallValidate () (sampleOptions\<lparr>Messages := None\<rparr>)]"
proof -
  have v: "validate (stubEngine None (''ok'', None)) = StructCtx"
    by (simp add: stubEngine_def)
  have m: "Model (sampleOptions\<lparr>Messages := None\<rparr>) = []
           \<or> Messages (sampleOptions\<lparr>Messages := None\<rparr>) = None"
    by simp
  have r: "enforcesRequired (validate (stubEngine None (''ok'', None)))"
    by (simp add: v StructCtx_enforcesRequired)
  show ?thesis
    using ChatCompletion_missing_required [OF m r, of stubPackage "()"]
    by (auto simp: v StructCtx_def missingRequired_def sampleOptions_def)
qed

text \<open>
  C2. For options that pass validation and that the encoder accepts, the one body
  handed to the transport is a JSON object whose \<^verbatim>\<open>max_tokens\<close> member is the default
  constant when \<^verbatim>\<open>MaxTokens\<close> was zero at call time, and the caller's value otherwise.
  The encoder is \<open>marshalOptions\<close>; the default constant is any non-zero number (a
  default of zero would itself be dropped by \<^verbatim>\<open>omitempty\<close>).
\<close>

theorem ChatCompletion_max_tokens_serialized:
  assumes "validate e ctx opts = None"
      and "marshalJson p = marshalOptions"
      and "finiteFloats opts"
      and "defaultMaxTokens p \<noteq> 0"
  shows "\<exists>fields. sentBodies (calls (ChatCompletion p e ctx opts)) = [JObject fields]
           \<and> (MaxTokens opts = 0 \<longrightarrow>
                map_of fields ''max_tokens'' = Some (JInt (defaultMaxTokens p)))
           \<and> (MaxTokens opts \<noteq> 0 \<longrightarrow>
                map_of fields ''max_tokens'' = Some (JInt (MaxTokens opts)))"
proof -
  have fin: "finiteFloats (defaulted p opts)"
    using assms(3) by (simp add: finiteFloats_def)
  have m: "marshalJson p (defaulted p opts) = (JObject (optionsFields (defaulted p opts)), None)"
    using fin by (simp add: assms(2) marshalOptions_def)
  have sent: "sentBodies (calls (ChatCompletion p e ctx opts))
                = [JObject (optionsFields (defaulted p opts))]"
    by (rule ChatCompletion_sends_serialized_body [OF assms(1) m])
  have zero: "MaxTokens opts = 0 \<Longrightarrow>
      map_of (optionsFields (defaulted p opts)) ''max_tokens'' = Some (JInt (defaultMaxTokens p))"
    using assms(4) by (simp add: map_of_optionsFields_max_tokens)
  have nonzero: "MaxTokens opts \<noteq> 0 \<Longrightarrow>
      map_of (optionsFields (defaulted p opts)) ''max_tokens'' = Some (JInt (MaxTokens opts))"
    by (simp add: map_of_optionsFields_max_tokens)
  show ?thesis
    using sent zero nonzero by blast
qed

theorem ChatCompletion_max_tokens_serialized_witness:
  "(\<exists>fields. sentBodies (calls (ChatCompletion stubPackage (stubEngine None (''ok'', None)) ()
                 sampleOptions)) = [JObject fields]
      \<and> map_of fields ''max_tokens'' = Some (JInt 16))
   \<and> (\<exists>fields. sentBodies (calls (ChatCompletion stubPackage (stubEngine None (''ok'', None)) ()
                 (sampleOptions\<lparr>MaxTokens := 7\<rparr>))) = [JObject fields]
      \<and> map_of fields ''max_tokens'' = Some (JInt 7))"
proof -
  let ?e = "stubEngine None (''ok'', None)"
  have v0: "validate ?e () sampleOptions = None"
    by code_simp
  have v7: "validate ?e () (sampleOptions\<lparr>MaxTokens := 7\<rparr>) = None"
    by code_simp
  have m: "marshalJson stubPackage = marshalOptions"
    by (simp add: stubPackage_def)
  have f0: "finiteFloats sampleOptions"
    by code_simp
  have f7: "finiteFloats (sampleOptions\<lparr>MaxTokens := 7\<rparr>)"
    by code_simp
  have d: "defaultMaxTokens stubPackage \<noteq> 0" "defaultMaxTokens stubPackage = 16"
    by (simp_all add: stubPackage_def)
  have t: "MaxTokens sampleOptions = 0" "MaxTokens (sampleOptions\<lparr>MaxTokens := 7\<rparr>) = 7"
    by (simp_all add: sampleOptions_def)
  show ?thesis
    using ChatCompletion_max_tokens_serialized [OF v0 m f0 d(1)]
          ChatCompletion_max_tokens_serialized [OF v7 m f7 d(1)]
    unfolding t d(2) by simp
qed

text \<open>
  C3, as stated (the structure behind the caller's pointer still has \<^verbatim>\<open>MaxTokens\<close> zero
  after the call), fails: line 66 assigns through the pointer \<^verbatim>\<open>opts\<close>, so the caller
  sees the default after the call.
\<close>

theorem ChatCompletion_default_not_request_scoped:
  "\<not> (MaxTokens sampleOptions = 0 \<longrightarrow>
        MaxTokens (opts_after (ChatCompletion stubPackage (stubEngine None (''ok'', None)) ()
          sampleOptions)) = 0)"
  by code_simp

text \<open>
  C3, amended. For options with \<^verbatim>\<open>MaxTokens\<close> zero: when validation succeeds the
  caller's structure holds the default constant after the call, whatever the later
  stages do; when validation fails it still holds zero; so, the default constant being
  non-zero, it still holds zero exactly when validation failed.
\<close>

theorem ChatCompletion_default_written_to_caller:
  assumes "MaxTokens opts = 0"
  shows "(validate e ctx opts = None \<longrightarrow>
            MaxTokens (opts_after (ChatCompletion p e ctx opts)) = defaultMaxTokens p)
         \<and> (validate e ctx opts \<noteq> None \<longrightarrow>
            MaxTokens (opts_after (ChatCompletion p e ctx opts)) = 0)
         \<and> (defaultMaxTokens p \<noteq> 0 \<longrightarrow>
            (MaxTokens (opts_after (ChatCompletion p e ctx opts)) = 0
               \<longleftrightarrow> validate e ctx opts \<noteq> None))"
  using assms by (cases p e ctx opts rule: ChatCompletion_cases) simp_all

theorem ChatCompletion_default_written_to_caller_witness:
  "MaxTokens sampleOptions = 0
   \<and> defaultMaxTokens stubPackage \<noteq> 0
   \<and> MaxTokens (opts_after (ChatCompletion stubPackage (stubEngine None (''ok'', None)) ()
        sampleOptions)) = 16
   \<and> MaxTokens (opts_after (ChatCompletion stubPackage (stubEngine None (''ok'', None)) ()
        (sampleOptions\<lparr>Model := []\<rparr>))) = 0
   \<and> (MaxTokens (opts_after (ChatCompletion stubPackage (stubEngine None (''ok'', None)) ()
        sampleOptions)) = 0) = False
   \<and> (MaxTokens (opts_after (ChatCompletion stubPackage (stubEngine None (''ok'', None)) ()
        (sampleOptions\<lparr>Model := []\<rparr>))) = 0) = True"
proof -
  let ?e = "stubEngine None (''ok'', None)"
  have z: "MaxTokens sampleOptions = 0" "MaxTokens (sampleOptions\<lparr>Model := []\<rparr>) = 0"
    by (simp_all add: sampleOptions_def)
  have v1: "validate ?e () sampleOptions = None"
    by code_simp
  have v2: "validate ?e () (sampleOptions\<lparr>Model := []\<rparr>) \<noteq> None"
    by code_simp
  have d: "defaultMaxTokens stubPackage = 16"
    by (simp add: stubPackage_def)
  have d0: "defaultMaxTokens stubPackage \<noteq> 0"
    by (simp add: d)
  note T1 = ChatCompletion_default_written_to_caller [OF z(1), of ?e "()" stubPackage]
  note T2 = ChatCompletion_default_written_to_caller [OF z(2), of ?e "()" stubPackage]
  have a: "MaxTokens (opts_after (ChatCompletion stubPackage ?e () sampleOptions)) = 16"
    using T1 [THEN conjunct1, rule_format, OF v1] by (simp only: d)
  have b: "MaxTokens (opts_after (ChatCompletion stubPackage ?e ()
             (sampleOptions\<lparr>Model := []\<rparr>))) = 0"
    by (rule T2 [THEN conjunct2, THEN conjunct1, rule_format, OF v2])
  have c: "(MaxTokens (opts_after (ChatCompletion stubPackage ?e () sampleOptions)) = 0) = False"
    using T1 [THEN conjunct2, THEN conjunct2, rule_format, OF d0] v1 by simp
  have c': "(MaxTokens (opts_after (ChatCompletion stubPackage ?e ()
             (sampleOptions\<lparr>Model := []\<rparr>))) = 0) = True"
    using T2 [THEN conjunct2, THEN conjunct2, rule_format, OF d0] v2 by simp
  show ?thesis
    by (intro conjI z(1) d0 a b c c')
qed

text \<open>
  C4. Whichever stage is the first to return an error, \<open>ChatCompletion\<close> returns that
  very error value with a nil response, and the collaborators invoked are exactly the
  stages up to and including the failing one: no later stage runs and none is retried.
\<close>

theorem ChatCompletion_first_error_returned:
  "(\<forall>x. validate e ctx opts = Some x \<longrightarrow>
      ret_err (ChatCompletion p e ctx opts) = Some x
      \<and> ret_response (ChatCompletion p e ctx opts) = None
      \<and> calls (ChatCompletion p e ctx opts) = [CallValidate ctx opts])
   \<and> (validate e ctx opts = None \<longrightarrow>
      (\<forall>b x. marshalJson p (defaulted p opts) = (b, Some x) \<longrightarrow>
         ret_err (ChatCompletion p e ctx opts) = Some x
         \<and> ret_response (ChatCompletion p e ctx opts) = None
         \<and> calls (ChatCompletion p e ctx opts)
             = [CallValidate ctx opts, CallMarshalJson (defaulted p opts)])
      \<and> (\<forall>b. marshalJson p (defaulted p opts) = (b, None) \<longrightarrow>
         (\<forall>req x. newReq e ctx ''POST'' (chatURI e) ''json'' b = (req, Some x) \<longrightarrow>
            ret_err (ChatCompletion p e ctx opts) = Some x
            \<and> ret_response (ChatCompletion p e ctx opts) = None
            \<and> calls (ChatCompletion p e ctx opts)
                = [CallValidate ctx opts, CallMarshalJson (defaulted p opts),
                   CallNewReq ctx ''POST'' (chatURI e) ''json'' b])
         \<and> (\<forall>req. newReq e ctx ''POST'' (chatURI e) ''json'' b = (req, None) \<longrightarrow>
            (\<forall>resp x. doReq e req = (resp, Some x) \<longrightarrow>
               ret_err (ChatCompletion p e ctx opts) = Some x
               \<and> ret_response (ChatCompletion p e ctx opts) = None
               \<and> calls (ChatCompletion p e ctx opts)
                   = [CallValidate ctx opts, CallMarshalJson (defaulted p opts),
                      CallNewReq ctx ''POST'' (chatURI e) ''json'' b, CallDoReq req])
            \<and> (\<forall>resp. doReq e req = (resp, None) \<longrightarrow>
               (\<forall>x r. unmarshal p resp zeroResponse = (Some x, r) \<longrightarrow>
                  ret_err (ChatCompletion p e ctx opts) = Some x
                  \<and> ret_response (ChatCompletion p e ctx opts) = None
                  \<and> calls (ChatCompletion p e ctx opts)
                      = [CallValidate ctx opts, CallMarshalJson (defaulted p opts),
                         CallNewReq ctx ''POST'' (chatURI e) ''json'' b, CallDoReq req,
                         CallUnmarshal resp])))))"
  by (simp add: ChatCompletion_validate_error ChatCompletion_marshalJson_error
        ChatCompletion_newReq_error ChatCompletion_doReq_error
        ChatCompletion_unmarshal_error)

theorem ChatCompletion_first_error_returned_witness:
  "ret_err (ChatCompletion stubPackage (stubEngine None (''ok'', None)) ()
      (sampleOptions\<lparr>Model := []\<rparr>)) = Some (ValidationError [''Model''])
   \<and> ret_err (ChatCompletion stubPackage (stubEngine None (''ok'', None)) ()
      (sampleOptions\<lparr>Temperature := 0x7FC00000\<rparr>))
       = Some (SerializationError ''json: unsupported value'')
   \<and> ret_err (ChatCompletion stubPackage
      (stubEngine (Some (TransportError ''bad url'')) (''ok'', None)) () sampleOptions)
       = Some (TransportError ''bad url'')
   \<and> ret_err (ChatCompletion stubPackage
      (stubEngine None ('''', Some (TransportError ''timeout''))) () sampleOptions)
       = Some (TransportError ''timeout'')
   \<and> ret_err (ChatCompletion stubPackage (stubEngine None (''<html>'', None)) ()
      sampleOptions) = Some (DeserializationError ''invalid character'')
   \<and> calls (ChatCompletion stubPackage
      (stubEngine None ('''', Some (TransportError ''timeout''))) () sampleOptions)
       = [CallValidate () sampleOptions,
          CallMarshalJson (sampleOptions\<lparr>MaxTokens := 16\<rparr>),
          CallNewReq () ''POST'' ''https://api.openai.com/v1/chat/completions'' ''json''
            (JObject [(''model'', JString ''gpt-x''),
                      (''messages'', JArray [JObject [(''content'', JString ''hi''),
                                                     (''role'', JString ''user'')]]),
                      (''max_tokens'', JInt 16)]),
          CallDoReq \<lparr>reqMethod = ''POST'',
                     reqURL = ''https://api.openai.com/v1/chat/completions'',
                     reqEncoding = ''json'',
                     reqBody = JObject [(''model'', JString ''gpt-x''),
                       (''messages'', JArray [JObject [(''content'', JString ''hi''),
                                                      (''role'', JString ''user'')]]),
                       (''max_tokens'', JInt 16)]\<rparr>]"
proof -
  let ?b = "JObject [(''model'', JString ''gpt-x''),
              (''messages'', JArray [JObject [(''content'', JString ''hi''),
                                             (''role'', JString ''user'')]]),
              (''max_tokens'', JInt 16)]"
  let ?req = "\<lparr>reqMethod = ''POST'', reqURL = ''https://api.openai.com/v1/chat/completions'',
               reqEncoding = ''json'', reqBody = ?b\<rparr>"
  let ?e1 = "stubEngine None (''ok'', None)"
  let ?e3 = "stubEngine (Some (TransportError ''bad url'')) (''ok'', None)"
  let ?e4 = "stubEngine None ('''', Some (TransportError ''timeout''))"
  let ?e5 = "stubEngine None (''<html>'', None)"
  let ?o1 = "sampleOptions\<lparr>Model := []\<rparr>"
  let ?o2 = "sampleOptions\<lparr>Temperature := 0x7FC00000\<rparr>"
  have u: "\<And>n a. chatURI (stubEngine n a) = ''https://api.openai.com/v1/chat/completions''"
    by (simp add: stubEngine_def)
  have o: "defaulted stubPackage sampleOptions = sampleOptions\<lparr>MaxTokens := 16\<rparr>"
    by code_simp
  have v1: "validate ?e1 () ?o1 = Some (ValidationError [''Model''])"
    by code_simp
  have v2: "validate ?e1 () ?o2 = None"
    by code_simp
  have v: "\<And>n a. validate (stubEngine n a) () sampleOptions = None"
    by (simp add: stubEngine_def StructCtx_def missingRequired_def sampleOptions_def)
  have m2: "marshalJson stubPackage (defaulted stubPackage ?o2)
              = (JNull, Some (SerializationError ''json: unsupported value''))"
    by code_simp
  have m: "marshalJson stubPackage (defaulted stubPackage sampleOptions) = (?b, None)"
    by code_simp
  have n3: "newReq ?e3 () ''POST'' (chatURI ?e3) ''json'' ?b
              = (?req, Some (TransportError ''bad url''))"
    by code_simp
  have n4: "newReq ?e4 () ''POST'' (chatURI ?e4) ''json'' ?b = (?req, None)"
    by code_simp
  have n5: "newReq ?e5 () ''POST'' (chatURI ?e5) ''json'' ?b = (?req, None)"
    by code_simp
  have d4: "doReq ?e4 ?req = ('''', Some (TransportError ''timeout''))"
    by code_simp
  have d5: "doReq ?e5 ?req = (''<html>'', None)"
    by code_simp
  have u5: "unmarshal stubPackage ''<html>'' zeroResponse
              = (Some (DeserializationError ''invalid character''), zeroResponse)"
    by code_simp
  note T = ChatCompletion_first_error_returned
  have r1: "ret_err (ChatCompletion stubPackage ?e1 () ?o1) = Some (ValidationError [''Model''])"
    using T [of ?e1 "()" ?o1 stubPackage, THEN conjunct1, rule_format, OF v1] by simp
  have r2: "ret_err (ChatCompletion stubPackage ?e1 () ?o2)
              = Some (SerializationError ''json: unsupported value'')"
    using T [of ?e1 "()" ?o2 stubPackage, THEN conjunct2, rule_format, OF v2,
        THEN conjunct1, rule_format, OF m2] by simp
  have r3: "ret_err (ChatCompletion stubPackage ?e3 () sampleOptions)
              = Some (TransportError ''bad url'')"
    using T [of ?e3 "()" sampleOptions stubPackage, THEN conjunct2, rule_format, OF v,
        THEN conjunct2, rule_format, OF m, THEN conjunct1, rule_format, OF n3] by simp
  have r4: "ret_err (ChatCompletion stubPackage ?e4 () sampleOptions)
              = Some (TransportError ''timeout'')
            \<and> calls (ChatCompletion stubPackage ?e4 () sampleOptions)
              = [CallValidate () sampleOptions,
                 CallMarshalJson (sampleOptions\<lparr>MaxTokens := 16\<rparr>),
                 CallNewReq () ''POST'' ''https://api.openai.com/v1/chat/completions'' ''json'' ?b,
                 CallDoReq ?req]"
    using T [of ?e4 "()" sampleOptions stubPackage, THEN conjunct2, rule_format, OF v,
        THEN conjunct2, rule_format, OF m, THEN conjunct2, rule_format, OF n4,
        THEN conjunct1, rule_format, OF d4]
    unfolding u o by simp
  have r5: "ret_err (ChatCompletion stubPackage ?e5 () sampleOptions)
              = Some (DeserializationError ''invalid character'')"
    using T [of ?e5 "()" sampleOptions stubPackage, THEN conjunct2, rule_format, OF v,
        THEN conjunct2, rule_format, OF m, THEN conjunct2, rule_format, OF n5,
        THEN conjunct2, rule_format, OF d5, rule_format, OF u5] by simp
  show ?thesis
    using r1 r2 r3 r4 r5 by simp
qed

text \<open>
  C5. Every call returns either a response with a nil error, or a nil response with an
  error; never both, never neither.
\<close>

theorem ChatCompletion_response_xor_error:
  "(\<exists>r. ret_response (ChatCompletion p e ctx opts) = Some r
        \<and> ret_err (ChatCompletion p e ctx opts) = None)
   \<or> (\<exists>x. ret_response (ChatCompletion p e ctx opts) = None
        \<and> ret_err (ChatCompletion p e ctx opts) = Some x)"
  by (cases p e ctx opts rule: ChatCompletion_cases) simp_all

theorem ChatCompletion_response_xor_error_witness:
  "ret_response (ChatCompletion stubPackage (stubEngine None (''ok'', None)) () sampleOptions)
     = Some (zeroResponse\<lparr>Id := ''chatcmpl-1'', Object := ''chat.completion''\<rparr>)
   \<and> ret_err (ChatCompletion stubPackage (stubEngine None (''ok'', None)) () sampleOptions)
     = None
   \<and> ret_response (ChatCompletion stubPackage (stubEngine None (''<html>'', None)) ()
        sampleOptions) = None
   \<and> ret_err (ChatCompletion stubPackage (stubEngine None (''<html>'', None)) ()
        sampleOptions) = Some (DeserializationError ''invalid character'')"
proof -
  let ?ok = "ChatCompletion stubPackage (stubEngine None (''ok'', None)) () sampleOptions"
  let ?bad = "ChatCompletion stubPackage (stubEngine None (''<html>'', None)) () sampleOptions"
  have r: "ret_response ?ok
             = Some (zeroResponse\<lparr>Id := ''chatcmpl-1'', Object := ''chat.completion''\<rparr>)"
    by code_simp
  have x: "ret_err ?bad = Some (DeserializationError ''invalid character'')"
    by code_simp
  have "ret_err ?ok = None"
    using ChatCompletion_response_xor_error [of stubPackage "stubEngine None (''ok'', None)"
        "()" sampleOptions] r
    by auto
  moreover have "ret_response ?bad = None"
    using ChatCompletion_response_xor_error [of stubPackage "stubEngine None (''<html>'', None)"
        "()" sampleOptions] x
    by auto
  ultimately show ?thesis
    using r x by simp
qed

text \<open>
  C6. Every body handed to the transport is a JSON object without a \<^verbatim>\<open>temperature\<close>,
  \<^verbatim>\<open>top_p\<close>, \<^verbatim>\<open>n\<close>, \<^verbatim>\<open>stop\<close>, \<^verbatim>\<open>presence_penalty\<close> or \<^verbatim>\<open>frequency_penalty\<close> member
  whenever the corresponding field of the options is the zero value of its type; and
  there is exactly one such body when validation succeeds and the encoder accepts the
  options. The encoder is \<open>marshalOptions\<close>.
\<close>

theorem ChatCompletion_zero_fields_omitted:
  assumes "marshalJson p = marshalOptions"
  shows "(\<forall>b \<in> set (sentBodies (calls (ChatCompletion p e ctx opts))).
            \<exists>fields. b = JObject fields
              \<and> (Temperature opts = 0 \<longrightarrow> ''temperature'' \<notin> fst ` set fields)
              \<and> (TopP opts = 0 \<longrightarrow> ''top_p'' \<notin> fst ` set fields)
              \<and> (N opts = 0 \<longrightarrow> ''n'' \<notin> fst ` set fields)
              \<and> (Stop opts = None \<longrightarrow> ''stop'' \<notin> fst ` set fields)
              \<and> (PresencePenalty opts = 0 \<longrightarrow> ''presence_penalty'' \<notin> fst ` set fields)
              \<and> (FrequencyPenalty opts = 0 \<longrightarrow> ''frequency_penalty'' \<notin> fst ` set fields))
         \<and> (validate e ctx opts = None \<and> finiteFloats opts \<longrightarrow>
              length (sentBodies (calls (ChatCompletion p e ctx opts))) = 1)"
proof (intro conjI ballI impI)
  fix b
  assume "b \<in> set (sentBodies (calls (ChatCompletion p e ctx opts)))"
  then have "marshalJson p (defaulted p opts) = (b, None)"
    by (rule sentBodies_serialized [THEN conjunct2])
  then have b: "b = JObject (optionsFields (defaulted p opts))"
    by (simp add: assms marshalOptions_def split: if_splits)
  let ?fs = "optionsFields (defaulted p opts)"
  have k1: "Temperature opts = 0 \<Longrightarrow> ''temperature'' \<notin> fst ` set ?fs"
    using optionsFields_omitempty(1) [of "defaulted p opts"] by simp
  have k2: "TopP opts = 0 \<Longrightarrow> ''top_p'' \<notin> fst ` set ?fs"
    using optionsFields_omitempty(2) [of "defaulted p opts"] by simp
  have k3: "N opts = 0 \<Longrightarrow> ''n'' \<notin> fst ` set ?fs"
    using optionsFields_omitempty(3) [of "defaulted p opts"] by simp
  have k4: "Stop opts = None \<Longrightarrow> ''stop'' \<notin> fst ` set ?fs"
    using optionsFields_omitempty(4) [of "defaulted p opts"] by simp
  have k5: "PresencePenalty opts = 0 \<Longrightarrow> ''presence_penalty'' \<notin> fst ` set ?fs"
    using optionsFields_omitempty(5) [of "defaulted p opts"] by simp
  have k6: "FrequencyPenalty opts = 0 \<Longrightarrow> ''frequency_penalty'' \<notin> fst ` set ?fs"
    using optionsFields_omitempty(6) [of "defaulted p opts"] by simp
  show "\<exists>fields. b = JObject fields
              \<and> (Temperature opts = 0 \<longrightarrow> ''temperature'' \<notin> fst ` set fields)
              \<and> (TopP opts = 0 \<longrightarrow> ''top_p'' \<notin> fst ` set fields)
              \<and> (N opts = 0 \<longrightarrow> ''n'' \<notin> fst ` set fields)
              \<and> (Stop opts = None \<longrightarrow> ''stop'' \<notin> fst ` set fields)
              \<and> (PresencePenalty opts = 0 \<longrightarrow> ''presence_penalty'' \<notin> fst ` set fields)
              \<and> (FrequencyPenalty opts = 0 \<longrightarrow> ''frequency_penalty'' \<notin> fst ` set fields)"
    by (intro exI [of _ ?fs] conjI impI b k1 k2 k3 k4 k5 k6)
next
  assume a: "validate e ctx opts = None \<and> finiteFloats opts"
  then have fin: "finiteFloats (defaulted p opts)"
    by (simp add: finiteFloats_def)
  have m: "marshalJson p (defaulted p opts) = (JObject (optionsFields (defaulted p opts)), None)"
    using fin by (simp add: assms marshalOptions_def)
  show "length (sentBodies (calls (ChatCompletion p e ctx opts))) = 1"
    by (simp add: ChatCompletion_sends_serialized_body [OF a [THEN conjunct1] m])
qed

theorem ChatCompletion_zero_fields_omitted_witness:
  "\<exists>fields. sentBodies (calls (ChatCompletion stubPackage
                   (stubEngine None (''ok'', None)) () (sampleOptions\<lparr>N := 2\<rparr>)))
                 = [JObject fields]
         \<and> map fst fields = [''model'', ''messages'', ''n'', ''max_tokens'']
         \<and> ''temperature'' \<notin> fst ` set fields \<and> ''top_p'' \<notin> fst ` set fields
         \<and> ''stop'' \<notin> fst ` set fields \<and> ''presence_penalty'' \<notin> fst ` set fields
         \<and> ''frequency_penalty'' \<notin> fst ` set fields"
proof -
  let ?e = "stubEngine None (''ok'', None)"
  let ?o = "sampleOptions\<lparr>N := 2\<rparr>"
  let ?sent = "sentBodies (calls (ChatCompletion stubPackage ?e () ?o))"
  let ?fs = "[(''model'', JString ''gpt-x''),
              (''messages'', JArray [JObject [(''content'', JString ''hi''),
                                             (''role'', JString ''user'')]]),
              (''n'', JInt 2),
              (''max_tokens'', JInt 16)]"
  have m: "marshalJson stubPackage = marshalOptions"
    by (simp add: stubPackage_def)
  have z: "Temperature ?o = 0" "TopP ?o = 0" "Stop ?o = None" "PresencePenalty ?o = 0"
    "FrequencyPenalty ?o = 0"
    by (simp_all add: sampleOptions_def)
  have ev: "?sent = [JObject ?fs]"
    by code_simp
  then have mem: "JObject ?fs \<in> set ?sent"
    by simp
  from ChatCompletion_zero_fields_omitted [OF m, of ?e "()" ?o, THEN conjunct1, THEN bspec, OF mem]
  obtain fields where f: "JObject ?fs = JObject fields"
    and k: "Temperature ?o = 0 \<longrightarrow> ''temperature'' \<notin> fst ` set fields"
      "TopP ?o = 0 \<longrightarrow> ''top_p'' \<notin> fst ` set fields"
      "Stop ?o = None \<longrightarrow> ''stop'' \<notin> fst ` set fields"
      "PresencePenalty ?o = 0 \<longrightarrow> ''presence_penalty'' \<notin> fst ` set fields"
      "FrequencyPenalty ?o = 0 \<longrightarrow> ''frequency_penalty'' \<notin> fst ` set fields"
    by (elim exE conjE)
  have keys: "map fst fields = [''model'', ''messages'', ''n'', ''max_tokens'']"
    using f by auto
  show ?thesis
    by (intro exI [of _ fields] conjI keys k(1) [rule_format, OF z(1)]
          k(2) [rule_format, OF z(2)] k(3) [rule_format, OF z(3)]
          k(4) [rule_format, OF z(4)] k(5) [rule_format, OF z(5)])
       (simp add: ev f [symmetric])
qed

text \<open>
  C7. When the stages up to \<^verbatim>\<open>doReq\<close> succeed, the transport returns a JSON object, and
  \<^verbatim>\<open>unmarshal\<close> decodes it, starting from a zero-valued structure, without an error, the
  response returned is exactly the structure \<^verbatim>\<open>unmarshal\<close> produced, with a nil error;
  this holds for any decoder. With the decoder \<open>unmarshalResponse\<close> that structure
  carries the values of the body: \<^verbatim>\<open>Id\<close>, \<^verbatim>\<open>Object\<close> and \<^verbatim>\<open>Created\<close> equal the members
  \<^verbatim>\<open>id\<close>, \<^verbatim>\<open>object\<close> and \<^verbatim>\<open>created\<close>; \<^verbatim>\<open>Choices\<close> has one element per element of
  \<^verbatim>\<open>choices\<close>, whose index, finish reason and message content and role equal that
  element's members; and the three counters of \<^verbatim>\<open>Usage\<close> equal the members of \<^verbatim>\<open>usage\<close>.
\<close>

theorem ChatCompletion_returns_decoding:
  assumes "validate e ctx opts = None"
      and "marshalJson p (defaulted p opts) = (b, None)"
      and "newReq e ctx ''POST'' (chatURI e) ''json'' b = (req, None)"
      and "doReq e req = (JObject fs, None)"
      and "unmarshal p (JObject fs) zeroResponse = (None, r)"
  shows "ret_response (ChatCompletion p e ctx opts) = Some r
         \<and> ret_err (ChatCompletion p e ctx opts) = None
         \<and> CallUnmarshal (JObject fs) \<in> set (calls (ChatCompletion p e ctx opts))
         \<and> (unmarshal p = unmarshalResponse \<longrightarrow> responseAgrees fs r)"
proof -
  have "unmarshal p = unmarshalResponse \<Longrightarrow> responseAgrees fs r"
    using assms(5) by (simp add: unmarshalResponse_agrees)
  then show ?thesis
    by (simp add: ChatCompletion_success [OF assms])
qed

theorem ChatCompletion_returns_decoding_witness:
  "ret_response (ChatCompletion jsonPackage (jsonEngine (JObject sampleMembers, None)) ()
      sampleOptions) = Some sampleResponse
   \<and> ret_err (ChatCompletion jsonPackage (jsonEngine (JObject sampleMembers, None)) ()
      sampleOptions) = None
   \<and> responseAgrees sampleMembers sampleResponse
   \<and> jsonMember ''id'' sampleMembers = Some (JString (Id sampleResponse))
   \<and> jsonMember ''created'' sampleMembers = Some (JInt (Created sampleResponse))"
proof -
  let ?e = "jsonEngine (JObject sampleMembers, None)"
  let ?b = "JObject [(''model'', JString ''gpt-x''),
              (''messages'', JArray [JObject [(''content'', JString ''hi''),
                                             (''role'', JString ''user'')]]),
              (''max_tokens'', JInt 16)]"
  let ?req = "\<lparr>reqMethod = ''POST'', reqURL = ''https://api.openai.com/v1/chat/completions'',
               reqEncoding = ''json'', reqBody = ?b\<rparr>"
  have v: "validate ?e () sampleOptions = None"
    by code_simp
  have m: "marshalJson jsonPackage (defaulted jsonPackage sampleOptions) = (?b, None)"
    by code_simp
  have n: "newReq ?e () ''POST'' (chatURI ?e) ''json'' ?b = (?req, None)"
    by code_simp
  have d: "doReq ?e ?req = (JObject sampleMembers, None)"
    by (simp add: jsonEngine_def)
  have u: "unmarshal jsonPackage (JObject sampleMembers) zeroResponse = (None, sampleResponse)"
    by code_simp
  have k: "unmarshal jsonPackage = unmarshalResponse"
    by (simp add: jsonPackage_def)
  have j: "jsonMember ''id'' sampleMembers = Some (JString (Id sampleResponse))"
    "jsonMember ''created'' sampleMembers = Some (JInt (Created sampleResponse))"
    by code_simp+
  show ?thesis
    using ChatCompletion_returns_decoding [OF v m n d u] k j by simp
qed

text \<open>
  C8, as stated (\<^verbatim>\<open>doReq\<close> runs exactly once in every call), fails: a call whose options
  fail validation returns before any request is built.
\<close>

theorem ChatCompletion_doReq_not_always_once:
  "\<not> doReqCount (calls (ChatCompletion stubPackage (stubEngine None (''ok'', None)) ()
        (sampleOptions\<lparr>Model := []\<rparr>))) = 1"
  by code_simp

text \<open>
  C8, amended. \<^verbatim>\<open>doReq\<close> runs at most once per call, and exactly once precisely when
  validation, serialization and \<^verbatim>\<open>newReq\<close> all succeed; a transport error is not
  retried.
\<close>

theorem ChatCompletion_doReq_at_most_once:
  "doReqCount (calls (ChatCompletion p e ctx opts)) \<le> 1
   \<and> (doReqCount (calls (ChatCompletion p e ctx opts)) = 1 \<longleftrightarrow>
        validate e ctx opts = None
        \<and> (\<exists>b req. marshalJson p (defaulted p opts) = (b, None)
              \<and> newReq e ctx ''POST'' (chatURI e) ''json'' b = (req, None)))"
  by (cases p e ctx opts rule: ChatCompletion_cases) (simp_all add: doReqCount_def)

theorem ChatCompletion_doReq_at_most_once_witness:
  "doReqCount (calls (ChatCompletion stubPackage (stubEngine None (''ok'', None)) ()
      sampleOptions)) = 1
   \<and> doReqCount (calls (ChatCompletion stubPackage
        (stubEngine None ('''', Some (TransportError ''timeout''))) () sampleOptions)) = 1
   \<and> doReqCount (calls (ChatCompletion stubPackage
        (stubEngine (Some (TransportError ''bad url'')) (''ok'', None)) () sampleOptions)) = 0"
proof -
  let ?b = "JObject [(''model'', JString ''gpt-x''),
              (''messages'', JArray [JObject [(''content'', JString ''hi''),
                                             (''role'', JString ''user'')]]),
              (''max_tokens'', JInt 16)]"
  let ?req = "\<lparr>reqMethod = ''POST'', reqURL = ''https://api.openai.com/v1/chat/completions'',
               reqEncoding = ''json'', reqBody = ?b\<rparr>"
  let ?e1 = "stubEngine None (''ok'', None)"
  let ?e2 = "stubEngine None ('''', Some (TransportError ''timeout''))"
  let ?e3 = "stubEngine (Some (TransportError ''bad url'')) (''ok'', None)"
  have m: "marshalJson stubPackage (defaulted stubPackage sampleOptions) = (?b, None)"
    by code_simp
  have v1: "validate ?e1 () sampleOptions = None" and v2: "validate ?e2 () sampleOptions = None"
    by code_simp+
  have n1: "newReq ?e1 () ''POST'' (chatURI ?e1) ''json'' ?b = (?req, None)"
    by code_simp
  have n2: "newReq ?e2 () ''POST'' (chatURI ?e2) ''json'' ?b = (?req, None)"
    by code_simp
  have n3: "\<And>b. snd (newReq ?e3 () ''POST'' (chatURI ?e3) ''json'' b)
              = Some (TransportError ''bad url'')"
    by (simp add: stubEngine_def)
  have c1: "doReqCount (calls (ChatCompletion stubPackage ?e1 () sampleOptions)) = 1"
    using ChatCompletion_doReq_at_most_once [of stubPackage ?e1 "()" sampleOptions] v1 m n1
    by blast
  have c2: "doReqCount (calls (ChatCompletion stubPackage ?e2 () sampleOptions)) = 1"
    using ChatCompletion_doReq_at_most_once [of stubPackage ?e2 "()" sampleOptions] v2 m n2
    by blast
  have "doReqCount (calls (ChatCompletion stubPackage ?e3 () sampleOptions)) \<noteq> 1"
    using ChatCompletion_doReq_at_most_once [of stubPackage ?e3 "()" sampleOptions] n3
    by (metis option.distinct(1) snd_conv)
  moreover have "doReqCount (calls (ChatCompletion stubPackage ?e3 () sampleOptions)) \<le> 1"
    using ChatCompletion_doReq_at_most_once [of stubPackage ?e3 "()" sampleOptions] by simp
  ultimately have c3: "doReqCount (calls (ChatCompletion stubPackage ?e3 () sampleOptions)) = 0"
    by arith
  show ?thesis
    by (intro conjI c1 c2 c3)
qed

text \<open>
  C9. With the validator \<open>StructCtx\<close>, options whose \<^verbatim>\<open>Model\<close> is set and whose
  \<^verbatim>\<open>Messages\<close> is an allocated slice of length zero pass validation; the call goes on
  to serialize them and, when serialization and \<^verbatim>\<open>newReq\<close> succeed, hands the request
  to \<^verbatim>\<open>doReq\<close>. What the call returns is then decided by the transport and the decoder
  alone: the error is the one \<^verbatim>\<open>doReq\<close> or \<^verbatim>\<open>unmarshal\<close> returned, if any, and otherwise
  the decoded response is returned with a nil error. No validation error for
  \<^verbatim>\<open>Messages\<close> is produced.
\<close>

theorem ChatCompletion_empty_messages_sent:
  assumes "validate e = StructCtx"
      and "Model opts \<noteq> []"
      and "Messages opts = Some []"
      and "marshalJson p (defaulted p opts) = (b, None)"
      and "newReq e ctx ''POST'' (chatURI e) ''json'' b = (req, None)"
  shows "validate e ctx opts = None
         \<and> take 4 (calls (ChatCompletion p e ctx opts))
             = [CallValidate ctx opts, CallMarshalJson (defaulted p opts),
                CallNewReq ctx ''POST'' (chatURI e) ''json'' b, CallDoReq req]
         \<and> ret_err (ChatCompletion p e ctx opts)
             = (case doReq e req of
                  (resp, Some x) \<Rightarrow> Some x
                | (resp, None) \<Rightarrow> fst (unmarshal p resp zeroResponse))
         \<and> ret_response (ChatCompletion p e ctx opts)
             = (case doReq e req of
                  (resp, Some x) \<Rightarrow> None
                | (resp, None) \<Rightarrow>
                    (case unmarshal p resp zeroResponse of
                       (Some x, r) \<Rightarrow> None
                     | (None, r) \<Rightarrow> Some r))"
proof -
  have v: "validate e ctx opts = None"
    using assms(2,3) by (simp add: assms(1) StructCtx_def missingRequired_def)
  obtain resp de where d: "doReq e req = (resp, de)"
    by (cases "doReq e req")
  obtain ue r where u: "unmarshal p resp zeroResponse = (ue, r)"
    by (cases "unmarshal p resp zeroResponse")
  show ?thesis
  proof (cases de)
    case (Some x)
    then show ?thesis
      using ChatCompletion_doReq_error [OF v assms(4,5)] d v by simp
  next
    case None
    then show ?thesis
      using ChatCompletion_unmarshal_error [OF v assms(4,5)]
        ChatCompletion_success [OF v assms(4,5)] d u v
      by (cases ue) simp_all
  qed
qed

theorem ChatCompletion_empty_messages_sent_witness:
  "validate (stubEngine None (''ok'', None)) () (sampleOptions\<lparr>Messages := Some []\<rparr>) = None
   \<and> take 4 (calls (ChatCompletion stubPackage (stubEngine None (''ok'', None)) ()
        (sampleOptions\<lparr>Messages := Some []\<rparr>)))
     = [CallValidate () (sampleOptions\<lparr>Messages := Some []\<rparr>),
        CallMarshalJson (sampleOptions\<lparr>Messages := Some [], MaxTokens := 16\<rparr>),
        CallNewReq () ''POST'' ''https://api.openai.com/v1/chat/completions'' ''json''
          (JObject [(''model'', JString ''gpt-x''), (''messages'', JArray []),
                    (''max_tokens'', JInt 16)]),
        CallDoReq \<lparr>reqMethod = ''POST'',
                   reqURL = ''https://api.openai.com/v1/chat/completions'',
                   reqEncoding = ''json'',
                   reqBody = JObject [(''model'', JString ''gpt-x''), (''messages'', JArray []),
                                      (''max_tokens'', JInt 16)]\<rparr>]
   \<and> ret_err (ChatCompletion stubPackage (stubEngine None (''ok'', None)) ()
        (sampleOptions\<lparr>Messages := Some []\<rparr>)) = None
   \<and> ret_response (ChatCompletion stubPackage (stubEngine None (''ok'', None)) ()
        (sampleOptions\<lparr>Messages := Some []\<rparr>))
     = Some (zeroResponse\<lparr>Id := ''chatcmpl-1'', Object := ''chat.completion''\<rparr>)"
proof -
  let ?e = "stubEngine None (''ok'', None)"
  let ?o = "sampleOptions\<lparr>Messages := Some []\<rparr>"
  let ?b = "JObject [(''model'', JString ''gpt-x''), (''messages'', JArray []),
                     (''max_tokens'', JInt 16)]"
  let ?req = "\<lparr>reqMethod = ''POST'', reqURL = ''https://api.openai.com/v1/chat/completions'',
               reqEncoding = ''json'', reqBody = ?b\<rparr>"
  have v: "validate ?e = StructCtx"
    by (simp add: stubEngine_def)
  have mo: "Model ?o \<noteq> []" and me: "Messages ?o = Some []"
    by (simp_all add: sampleOptions_def)
  have m: "marshalJson stubPackage (defaulted stubPackage ?o) = (?b, None)"
    by code_simp
  have n: "newReq ?e () ''POST'' (chatURI ?e) ''json'' ?b = (?req, None)"
    by code_simp
  have u: "chatURI ?e = ''https://api.openai.com/v1/chat/completions''"
    by code_simp
  have o: "defaulted stubPackage ?o = sampleOptions\<lparr>Messages := Some [], MaxTokens := 16\<rparr>"
    by code_simp
  have d: "doReq ?e ?req = (''ok'', None)"
    by (simp add: stubEngine_def)
  have k: "unmarshal stubPackage ''ok'' zeroResponse
             = (None, zeroResponse\<lparr>Id := ''chatcmpl-1'', Object := ''chat.completion''\<rparr>)"
    by (simp add: stubPackage_def stubUnmarshal_def)
  show ?thesis
    using ChatCompletion_empty_messages_sent [OF v mo me m n]
    unfolding u o d by (simp add: k)
qed

text \<open>
  C10. After any call the caller's options differ from the ones passed in at most in
  \<^verbatim>\<open>MaxTokens\<close>; \<^verbatim>\<open>MaxTokens\<close> differs only if validation succeeded and it was zero at
  entry; and when validation fails the whole structure is unchanged.
\<close>

theorem ChatCompletion_options_frame:
  "opts_after (ChatCompletion p e ctx opts)
     = opts\<lparr>MaxTokens := MaxTokens (opts_after (ChatCompletion p e ctx opts))\<rparr>
   \<and> (MaxTokens (opts_after (ChatCompletion p e ctx opts)) \<noteq> MaxTokens opts \<longrightarrow>
        validate e ctx opts = None \<and> MaxTokens opts = 0)
   \<and> (validate e ctx opts \<noteq> None \<longrightarrow> opts_after (ChatCompletion p e ctx opts) = opts)"
  by (cases p e ctx opts rule: ChatCompletion_cases) simp_all

theorem ChatCompletion_options_frame_witness:
  "opts_after (ChatCompletion stubPackage (stubEngine None (''ok'', None)) () sampleOptions)
     = sampleOptions\<lparr>MaxTokens := 16\<rparr>
   \<and> opts_after (ChatCompletion stubPackage (stubEngine None (''ok'', None)) ()
        (sampleOptions\<lparr>Messages := None\<rparr>)) = sampleOptions\<lparr>Messages := None\<rparr>"
proof -
  let ?e = "stubEngine None (''ok'', None)"
  let ?o = "sampleOptions\<lparr>Messages := None\<rparr>"
  have v: "validate ?e () ?o \<noteq> None"
    by code_simp
  have t: "MaxTokens (opts_after (ChatCompletion stubPackage ?e () sampleOptions)) = 16"
    by code_simp
  have a: "opts_after (ChatCompletion stubPackage ?e () sampleOptions)
             = sampleOptions\<lparr>MaxTokens := 16\<rparr>"
    using ChatCompletion_options_frame [of stubPackage ?e "()" sampleOptions, THEN conjunct1]
    unfolding t .
  have b: "opts_after (ChatCompletion stubPackage ?e () ?o) = ?o"
    by (rule ChatCompletion_options_frame [of stubPackage ?e "()" ?o,
          THEN conjunct2, THEN conjunct2, rule_format, OF v])
  show ?thesis
    by (intro conjI a b)
qed

end
